theory Spec2Isabelle
  imports Complex_Main "HOL-Library.Word" "HOL-Library.Sublist"
begin

unbundle bit_operations_syntax

section \<open>Hardware state store (host/hal.hpp, host/hal.cpp)\<close>

text \<open>
  The \<open>int32_t\<close> fields are modelled as \<open>int\<close>, \<open>uint8_t\<close> ports as \<open>8 word\<close>.  The
  fixed-size \<open>std::array\<close>s are lists; \<open>hal_wf\<close> records their sizes.

  The values of the C++ type \<open>double\<close> are an arbitrary type \<open>'d\<close>, and the arithmetic of
  \<open>double\<close> (on the usual targets IEEE binary64, every operation rounded) is a record of
  operations on \<open>'d\<close>: it belongs to the language implementation, not to this program.  The
  store and its physics step are written over any such arithmetic.
\<close>

record 'd arith =
  fp_lit :: "real \<Rightarrow> 'd"
  fp_of_int :: "int \<Rightarrow> 'd"
  fp_add :: "'d \<Rightarrow> 'd \<Rightarrow> 'd"
  fp_sub :: "'d \<Rightarrow> 'd \<Rightarrow> 'd"
  fp_mul :: "'d \<Rightarrow> 'd \<Rightarrow> 'd"
  fp_div :: "'d \<Rightarrow> 'd \<Rightarrow> 'd"
  fp_abs :: "'d \<Rightarrow> 'd"
  fp_to_int32 :: "'d \<Rightarrow> int"

text \<open>\<open>fp_lit\<close> is the value of a floating literal, \<open>fp_of_int\<close> the conversion of an
  integer to \<open>double\<close>, \<open>fp_to_int32\<close> is \<open>static_cast<int32_t>\<close>.

  The same operations over the reals, without rounding.  This instance serves to evaluate
  concrete instances of statements that hold for every arithmetic; it is not the arithmetic of
  the program.\<close>

definition exact_arith :: "real arith" where
  "exact_arith =
     \<lparr> fp_lit = (\<lambda>r. r), fp_of_int = real_of_int, fp_add = (+), fp_sub = (-), fp_mul = (*),
       fp_div = (/), fp_abs = abs,
       fp_to_int32 = (\<lambda>r. if 0 \<le> r then \<lfloor>r\<rfloor> else \<lceil>r\<rceil>) \<rparr>"

datatype RobotMode = DISABLED | AUTONOMOUS | OPCONTROL

datatype motor_gearset_e_t =
  E_MOTOR_GEARSET_36 | E_MOTOR_GEARSET_18 | E_MOTOR_GEARSET_06 | E_MOTOR_GEARSET_INVALID

record 'd BatteryState =
  capacity :: 'd
  current :: int
  temperature :: 'd
  voltage :: int

record ControllerState =
  analog :: "int list"
  digital :: "bool list"
  connected :: bool
  battery_capacity :: int
  battery_level :: int
  lcd_lines :: "string list"

record 'd MotorState =
  voltage :: int
  velocity :: int
  position :: 'd
  actual_velocity :: 'd
  current :: int
  temperature :: 'd
  gearset :: motor_gearset_e_t
  reversed :: bool
  connected :: bool

text \<open>The default member initialisers of the three structs.\<close>

definition MotorState_default :: "'d arith \<Rightarrow> 'd MotorState" where
  "MotorState_default A =
     \<lparr> voltage = 0, velocity = 0, position = fp_lit A 0, actual_velocity = fp_lit A 0,
       current = 0, temperature = fp_lit A 25, gearset = E_MOTOR_GEARSET_18, reversed = False,
       connected = False \<rparr>"

definition ControllerState_default :: ControllerState where
  "ControllerState_default =
     \<lparr> analog = [0, 0, 0, 0], digital = replicate 18 False, ControllerState.connected = False,
       battery_capacity = 100, battery_level = 100, lcd_lines = replicate 3 [] \<rparr>"

definition BatteryState_default :: "'d arith \<Rightarrow> 'd BatteryState" where
  "BatteryState_default A =
     \<lparr> capacity = fp_lit A 100, BatteryState.current = 0,
       BatteryState.temperature = fp_lit A 25, BatteryState.voltage = 12600 \<rparr>"

record 'd HAL =
  motors :: "'d MotorState list"
  controllers :: "ControllerState list"
  battery :: "'d BatteryState"
  robot_mode :: RobotMode
  competition_connected :: bool
  hal_lcd_lines :: "string list"
  lcd_buttons :: "8 word"
  lcd_bg_color :: "32 word"
  lcd_text_color :: "32 word"
  lcd_initialized :: bool

definition hal_wf :: "'d HAL \<Rightarrow> bool" where
  "hal_wf h \<longleftrightarrow> length (motors h) = 21 \<and> length (controllers h) = 2 \<and>
     length (hal_lcd_lines h) = 8 \<and>
     list_all (\<lambda>c. length (analog c) = 4 \<and> length (digital c) = 18) (controllers h)"

text \<open>\<open>HAL::init\<close> applied to a freshly constructed object (constructor defaults for the
  fields \<open>init\<close> does not assign).\<close>

definition HAL_init :: "'d arith \<Rightarrow> 'd HAL" where
  "HAL_init A =
     \<lparr> motors = replicate 21 (MotorState_default A),
       controllers = replicate 2 (ControllerState_default\<lparr>ControllerState.connected := True\<rparr>),
       battery = BatteryState_default A,
       robot_mode = DISABLED,
       competition_connected = False,
       hal_lcd_lines = replicate 8 [],
       lcd_buttons = 0,
       lcd_bg_color = 0,
       lcd_text_color = 0xFFFF,
       lcd_initialized = False \<rparr>"

text \<open>\<open>std::clamp(v, lo, hi)\<close>.\<close>

definition clamp :: "int \<Rightarrow> int \<Rightarrow> int \<Rightarrow> int" where
  "clamp v lo hi = (if v < lo then lo else if hi < v then hi else v)"

definition set_motor :: "'d HAL \<Rightarrow> 8 word \<Rightarrow> int \<Rightarrow> 'd HAL" where
  "set_motor h port v =
     (if port < 1 \<or> port > 21 then h
      else h\<lparr>motors := (motors h)[unat port - 1 :=
              (motors h ! (unat port - 1))\<lparr>voltage := clamp v (-127) 127\<rparr>]\<rparr>)"

definition set_motor_velocity :: "'d HAL \<Rightarrow> 8 word \<Rightarrow> int \<Rightarrow> 'd HAL" where
  "set_motor_velocity h port v =
     (if port < 1 \<or> port > 21 then h
      else h\<lparr>motors := (motors h)[unat port - 1 :=
              (motors h ! (unat port - 1))\<lparr>velocity := v\<rparr>]\<rparr>)"

definition set_motor_position :: "'d HAL \<Rightarrow> 8 word \<Rightarrow> 'd \<Rightarrow> 'd HAL" where
  "set_motor_position h port p =
     (if port < 1 \<or> port > 21 then h
      else h\<lparr>motors := (motors h)[unat port - 1 :=
              (motors h ! (unat port - 1))\<lparr>position := p\<rparr>]\<rparr>)"

definition set_motor_gearset :: "'d HAL \<Rightarrow> 8 word \<Rightarrow> motor_gearset_e_t \<Rightarrow> 'd HAL" where
  "set_motor_gearset h port g =
     (if port < 1 \<or> port > 21 then h
      else h\<lparr>motors := (motors h)[unat port - 1 :=
              (motors h ! (unat port - 1))\<lparr>gearset := g\<rparr>]\<rparr>)"

definition set_motor_reversed :: "'d HAL \<Rightarrow> 8 word \<Rightarrow> bool \<Rightarrow> 'd HAL" where
  "set_motor_reversed h port r =
     (if port < 1 \<or> port > 21 then h
      else h\<lparr>motors := (motors h)[unat port - 1 :=
              (motors h ! (unat port - 1))\<lparr>reversed := r\<rparr>]\<rparr>)"

definition set_motor_connected :: "'d HAL \<Rightarrow> 8 word \<Rightarrow> bool \<Rightarrow> 'd HAL" where
  "set_motor_connected h port c =
     (if port < 1 \<or> port > 21 then h
      else h\<lparr>motors := (motors h)[unat port - 1 :=
              (motors h ! (unat port - 1))\<lparr>connected := c\<rparr>]\<rparr>)"

definition get_motor_voltage :: "'d HAL \<Rightarrow> 8 word \<Rightarrow> int" where
  "get_motor_voltage h port =
     (if port < 1 \<or> port > 21 then 0 else voltage (motors h ! (unat port - 1)))"

definition get_motor_velocity :: "'d HAL \<Rightarrow> 8 word \<Rightarrow> int" where
  "get_motor_velocity h port =
     (if port < 1 \<or> port > 21 then 0 else velocity (motors h ! (unat port - 1)))"

definition get_motor_position :: "'d arith \<Rightarrow> 'd HAL \<Rightarrow> 8 word \<Rightarrow> 'd" where
  "get_motor_position A h port =
     (if port < 1 \<or> port > 21 then fp_lit A 0 else position (motors h ! (unat port - 1)))"

definition get_motor_actual_velocity :: "'d arith \<Rightarrow> 'd HAL \<Rightarrow> 8 word \<Rightarrow> 'd" where
  "get_motor_actual_velocity A h port =
     (if port < 1 \<or> port > 21 then fp_lit A 0
      else actual_velocity (motors h ! (unat port - 1)))"

definition get_motor_current :: "'d HAL \<Rightarrow> 8 word \<Rightarrow> int" where
  "get_motor_current h port =
     (if port < 1 \<or> port > 21 then 0 else current (motors h ! (unat port - 1)))"

definition get_motor_temperature :: "'d arith \<Rightarrow> 'd HAL \<Rightarrow> 8 word \<Rightarrow> 'd" where
  "get_motor_temperature A h port =
     (if port < 1 \<or> port > 21 then fp_lit A 0 else temperature (motors h ! (unat port - 1)))"

definition get_motor_gearset :: "'d HAL \<Rightarrow> 8 word \<Rightarrow> motor_gearset_e_t" where
  "get_motor_gearset h port =
     (if port < 1 \<or> port > 21 then E_MOTOR_GEARSET_INVALID
      else gearset (motors h ! (unat port - 1)))"

definition get_motor_reversed :: "'d HAL \<Rightarrow> 8 word \<Rightarrow> bool" where
  "get_motor_reversed h port =
     (if port < 1 \<or> port > 21 then False else reversed (motors h ! (unat port - 1)))"

definition is_motor_connected :: "'d HAL \<Rightarrow> 8 word \<Rightarrow> bool" where
  "is_motor_connected h port =
     (if port < 1 \<or> port > 21 then False else connected (motors h ! (unat port - 1)))"

text \<open>\<open>get_motor_state\<close> hands out a reference to a function-local default-constructed
  \<open>dummy\<close> for a bad port.\<close>

definition get_motor_state :: "'d arith \<Rightarrow> 'd HAL \<Rightarrow> 8 word \<Rightarrow> 'd MotorState" where
  "get_motor_state A h port =
     (if port < 1 \<or> port > 21 then MotorState_default A else motors h ! (unat port - 1))"

subsection \<open>Controllers\<close>

text \<open>An access outside an array is undefined behaviour in the source; the model makes the
  array accesses of the controller accessors and of the display checked and reports a failed
  check as a fault.\<close>

datatype fault = WriteOutOfBounds | ReadOutOfBounds

text \<open>The unscoped enums \<open>controller_id_e_t\<close>, \<open>controller_analog_e_t\<close> and
  \<open>controller_digital_e_t\<close> are 32-bit values.  In the guards \<open>id > 1\<close>, \<open>channel > 3\<close> and
  \<open>button >= 18\<close> they are promoted to \<open>int\<close>, so the comparison is signed (\<open>sint\<close>); as an
  index into \<open>std::array\<close> the value is converted to \<open>size_t\<close>, so a negative value is
  outside every array.\<close>

definition index_ok :: "32 word \<Rightarrow> 'a list \<Rightarrow> bool" where
  "index_ok i xs \<longleftrightarrow> 0 \<le> sint i \<and> nat (sint i) < length xs"

definition set_controller_analog ::
  "'d HAL \<Rightarrow> 32 word \<Rightarrow> 32 word \<Rightarrow> int \<Rightarrow> fault + 'd HAL" where
  "set_controller_analog h ident channel v =
     (if sint ident > 1 \<or> sint channel > 3 then Inr h
      else if \<not> index_ok ident (controllers h) then Inl WriteOutOfBounds
      else if \<not> index_ok channel (analog (controllers h ! nat (sint ident)))
        then Inl WriteOutOfBounds
      else Inr (h\<lparr>controllers := (controllers h)[nat (sint ident) :=
              (controllers h ! nat (sint ident))\<lparr>analog :=
                 (analog (controllers h ! nat (sint ident)))
                   [nat (sint channel) := clamp v (-127) 127]\<rparr>]\<rparr>))"

definition set_controller_digital ::
  "'d HAL \<Rightarrow> 32 word \<Rightarrow> 32 word \<Rightarrow> bool \<Rightarrow> fault + 'd HAL" where
  "set_controller_digital h ident button v =
     (if sint ident > 1 \<or> sint button \<ge> 18 then Inr h
      else if \<not> index_ok ident (controllers h) then Inl WriteOutOfBounds
      else if \<not> index_ok button (digital (controllers h ! nat (sint ident)))
        then Inl WriteOutOfBounds
      else Inr (h\<lparr>controllers := (controllers h)[nat (sint ident) :=
              (controllers h ! nat (sint ident))\<lparr>digital :=
                 (digital (controllers h ! nat (sint ident)))[nat (sint button) := v]\<rparr>]\<rparr>))"

definition set_controller_connected :: "'d HAL \<Rightarrow> 32 word \<Rightarrow> bool \<Rightarrow> fault + 'd HAL" where
  "set_controller_connected h ident c =
     (if sint ident > 1 then Inr h
      else if \<not> index_ok ident (controllers h) then Inl WriteOutOfBounds
      else Inr (h\<lparr>controllers := (controllers h)[nat (sint ident) :=
              (controllers h ! nat (sint ident))\<lparr>ControllerState.connected := c\<rparr>]\<rparr>))"

definition get_controller_analog :: "'d HAL \<Rightarrow> 32 word \<Rightarrow> 32 word \<Rightarrow> fault + int" where
  "get_controller_analog h ident channel =
     (if sint ident > 1 \<or> sint channel > 3 then Inr 0
      else if \<not> index_ok ident (controllers h) then Inl ReadOutOfBounds
      else if \<not> index_ok channel (analog (controllers h ! nat (sint ident)))
        then Inl ReadOutOfBounds
      else Inr (analog (controllers h ! nat (sint ident)) ! nat (sint channel)))"

definition get_controller_digital :: "'d HAL \<Rightarrow> 32 word \<Rightarrow> 32 word \<Rightarrow> fault + bool" where
  "get_controller_digital h ident button =
     (if sint ident > 1 \<or> sint button \<ge> 18 then Inr False
      else if \<not> index_ok ident (controllers h) then Inl ReadOutOfBounds
      else if \<not> index_ok button (digital (controllers h ! nat (sint ident)))
        then Inl ReadOutOfBounds
      else Inr (digital (controllers h ! nat (sint ident)) ! nat (sint button)))"

definition is_controller_connected :: "'d HAL \<Rightarrow> 32 word \<Rightarrow> fault + bool" where
  "is_controller_connected h ident =
     (if sint ident > 1 then Inr False
      else if \<not> index_ok ident (controllers h) then Inl ReadOutOfBounds
      else Inr (ControllerState.connected (controllers h ! nat (sint ident))))"

definition get_controller_battery_capacity :: "'d HAL \<Rightarrow> 32 word \<Rightarrow> fault + int" where
  "get_controller_battery_capacity h ident =
     (if sint ident > 1 then Inr 0
      else if \<not> index_ok ident (controllers h) then Inl ReadOutOfBounds
      else Inr (battery_capacity (controllers h ! nat (sint ident))))"

definition get_controller_battery_level :: "'d HAL \<Rightarrow> 32 word \<Rightarrow> fault + int" where
  "get_controller_battery_level h ident =
     (if sint ident > 1 then Inr 0
      else if \<not> index_ok ident (controllers h) then Inl ReadOutOfBounds
      else Inr (battery_level (controllers h ! nat (sint ident))))"

definition get_controller_state :: "'d HAL \<Rightarrow> 32 word \<Rightarrow> fault + ControllerState" where
  "get_controller_state h ident =
     (if sint ident > 1 then Inr ControllerState_default
      else if \<not> index_ok ident (controllers h) then Inl ReadOutOfBounds
      else Inr (controllers h ! nat (sint ident)))"

subsection \<open>Competition mode\<close>

definition set_robot_mode :: "'d HAL \<Rightarrow> RobotMode \<Rightarrow> 'd HAL" where
  "set_robot_mode h m = h\<lparr>robot_mode := m\<rparr>"

definition get_robot_mode :: "'d HAL \<Rightarrow> RobotMode" where
  "get_robot_mode h = robot_mode h"

definition HAL_shutdown :: "'d HAL \<Rightarrow> 'd HAL" where
  "HAL_shutdown h = h\<lparr>robot_mode := DISABLED\<rparr>"

subsection \<open>Text display (LLEMU) lines\<close>

text \<open>The line index is an \<open>int16_t\<close>: a \<open>16 word\<close> read as two's complement.\<close>

definition lcd_set_text :: "'d HAL \<Rightarrow> 16 word \<Rightarrow> string \<Rightarrow> 'd HAL" where
  "lcd_set_text h line txt =
     (if sint line < 0 \<or> sint line > 7 then h
      else h\<lparr>hal_lcd_lines := (hal_lcd_lines h)[nat (sint line) := txt],
             lcd_initialized := True\<rparr>)"

definition lcd_get_text :: "'d HAL \<Rightarrow> 16 word \<Rightarrow> string" where
  "lcd_get_text h line =
     (if sint line < 0 \<or> sint line > 7 then [] else hal_lcd_lines h ! nat (sint line))"

definition lcd_clear :: "'d HAL \<Rightarrow> 'd HAL" where
  "lcd_clear h = h\<lparr>hal_lcd_lines := map (\<lambda>_. []) (hal_lcd_lines h)\<rparr>"

definition lcd_clear_line :: "'d HAL \<Rightarrow> 16 word \<Rightarrow> 'd HAL" where
  "lcd_clear_line h line =
     (if sint line < 0 \<or> sint line > 7 then h
      else h\<lparr>hal_lcd_lines := (hal_lcd_lines h)[nat (sint line) := []]\<rparr>)"

subsection \<open>The physics tick\<close>

text \<open>The \<open>switch\<close> on the gearset in \<open>HAL::update\<close>.\<close>

definition max_velocity_of :: "'d arith \<Rightarrow> motor_gearset_e_t \<Rightarrow> 'd" where
  "max_velocity_of A g =
     (case g of
        E_MOTOR_GEARSET_36 \<Rightarrow> fp_lit A 100
      | E_MOTOR_GEARSET_18 \<Rightarrow> fp_lit A 200
      | E_MOTOR_GEARSET_06 \<Rightarrow> fp_lit A 600
      | _ \<Rightarrow> fp_lit A 200)"

text \<open>The body of the \<open>for (auto& motor : _motors)\<close> loop of \<open>HAL::update\<close>, every
  operation on \<open>double\<close> taken from the arithmetic \<open>A\<close>, in the order the source evaluates
  them.\<close>

definition update_motor :: "'d arith \<Rightarrow> 'd MotorState \<Rightarrow> 'd MotorState" where
  "update_motor A motor =
     (if \<not> connected motor then motor
      else
        let max_velocity = max_velocity_of A (gearset motor);
            target_velocity =
              fp_mul A (fp_div A (fp_of_int A (voltage motor)) (fp_lit A 127)) max_velocity;
            alpha = fp_lit A 0.1;
            m1 = motor\<lparr>actual_velocity :=
                   fp_add A (fp_mul A (actual_velocity motor) (fp_sub A (fp_lit A 1) alpha))
                            (fp_mul A target_velocity alpha)\<rparr>;
            m2 = m1\<lparr>position :=
                   fp_add A (position m1)
                     (fp_mul A (fp_mul A (actual_velocity m1)
                                         (fp_div A (fp_lit A 10) (fp_lit A 60000)))
                               (fp_lit A 360))\<rparr>;
            m3 = m2\<lparr>current :=
                   fp_to_int32 A
                     (fp_mul A (fp_abs A (fp_div A (actual_velocity m2) max_velocity))
                               (fp_of_int A 2000))\<rparr>
        in m3\<lparr>temperature :=
                fp_add A (fp_lit A 25)
                  (fp_mul A (fp_div A (fp_of_int A \<bar>current m3\<bar>) (fp_lit A 2500))
                            (fp_lit A 30))\<rparr>)"

text \<open>\<open>HAL::update\<close>: the sweep over all motors.  The registered state callback, invoked
  afterwards, is an opaque closure outside the store and is not part of the model.\<close>

definition HAL_update :: "'d arith \<Rightarrow> 'd HAL \<Rightarrow> 'd HAL" where
  "HAL_update A h = h\<lparr>motors := map (update_motor A) (motors h)\<rparr>"


section \<open>Display bridge (host/display.hpp, host/display.cpp)\<close>

definition WIDTH :: int where "WIDTH = 480"
definition HEIGHT :: int where "HEIGHT = 272"
definition BUFFER_SIZE :: int where "BUFFER_SIZE = WIDTH * HEIGHT"

text \<open>\<open>lv_area_t\<close>: four \<open>lv_coord_t\<close> (\<open>int16_t\<close>) coordinates, read as two's complement.\<close>

record lv_area_t =
  x1 :: "16 word"
  y1 :: "16 word"
  x2 :: "16 word"
  y2 :: "16 word"

text \<open>\<open>ScreenUpdate\<close> (host/ipc.hpp): \<open>int32_t\<close> corners and the RGB565 pixel vector.\<close>

record ScreenUpdate =
  x1 :: int
  y1 :: int
  x2 :: int
  y2 :: int
  pixels :: "16 word list"

text \<open>The part of \<open>Display\<close> the flush and touch callbacks work on: the
  \<open>uint16_t _framebuffer[BUFFER_SIZE]\<close> array and the latest touch sample.\<close>

record Display =
  framebuffer :: "16 word list"
  touch_x :: "16 word"
  touch_y :: "16 word"
  touch_pressed :: bool

definition Display_new :: Display where
  "Display_new =
     \<lparr> framebuffer = replicate (nat BUFFER_SIZE) 0, touch_x = 0, touch_y = 0,
       touch_pressed = False \<rparr>"

definition set_touch :: "Display \<Rightarrow> 16 word \<Rightarrow> 16 word \<Rightarrow> bool \<Rightarrow> Display" where
  "set_touch d x y pressed = d\<lparr>touch_x := x, touch_y := y, touch_pressed := pressed\<rparr>"

text \<open>The inner loop \<open>for (int32_t x = area->x1; x <= area->x2; x++)\<close> of the copy into the
  framebuffer.  The state is the framebuffer and the offset \<open>cp\<close> of \<open>color_p\<close> into the
  source buffer \<open>src\<close> (the \<open>full\<close> members of the \<open>lv_color_t\<close> array).\<close>

function flush_row ::
  "int \<Rightarrow> int \<Rightarrow> int \<Rightarrow> 16 word list \<Rightarrow> 16 word list \<times> int \<Rightarrow> fault + (16 word list \<times> int)"
where
  "flush_row x xe y src (fb, cp) =
     (if x \<le> xe then
        (if x \<ge> 0 \<and> x < WIDTH \<and> y \<ge> 0 \<and> y < HEIGHT then
           (if \<not> (0 \<le> cp \<and> cp < int (length src)) then Inl ReadOutOfBounds
            else if \<not> (0 \<le> y * WIDTH + x \<and> y * WIDTH + x < int (length fb))
              then Inl WriteOutOfBounds
            else flush_row (x + 1) xe y src (fb[nat (y * WIDTH + x) := src ! nat cp], cp + 1))
         else flush_row (x + 1) xe y src (fb, cp + 1))
      else Inr (fb, cp))"
  by pat_completeness auto
termination
  by (relation "measure (\<lambda>(x, xe, y, src, s). nat (xe + 1 - x))") auto

declare flush_row.simps [simp del]

text \<open>The outer loop \<open>for (int32_t y = area->y1; y <= area->y2; y++)\<close>.\<close>

function flush_rows ::
  "int \<Rightarrow> int \<Rightarrow> int \<Rightarrow> int \<Rightarrow> 16 word list \<Rightarrow> 16 word list \<times> int
     \<Rightarrow> fault + (16 word list \<times> int)"
where
  "flush_rows y ye xs xe src s =
     (if y \<le> ye then
        (case flush_row xs xe y src s of
           Inl e \<Rightarrow> Inl e
         | Inr s' \<Rightarrow> flush_rows (y + 1) ye xs xe src s')
      else Inr s)"
  by pat_completeness auto
termination
  by (relation "measure (\<lambda>(y, ye, xs, xe, src, s). nat (ye + 1 - y))") auto

declare flush_rows.simps [simp del]

text \<open>The two loops that copy the affected region out of the framebuffer into
  \<open>update.pixels\<close> (\<open>push_back\<close>).\<close>

function collect_row ::
  "int \<Rightarrow> int \<Rightarrow> int \<Rightarrow> 16 word list \<Rightarrow> 16 word list \<Rightarrow> fault + 16 word list"
where
  "collect_row x xe y fb acc =
     (if x \<le> xe then
        (if x \<ge> 0 \<and> x < WIDTH \<and> y \<ge> 0 \<and> y < HEIGHT then
           (if \<not> (0 \<le> y * WIDTH + x \<and> y * WIDTH + x < int (length fb))
              then Inl ReadOutOfBounds
            else collect_row (x + 1) xe y fb (acc @ [fb ! nat (y * WIDTH + x)]))
         else collect_row (x + 1) xe y fb acc)
      else Inr acc)"
  by pat_completeness auto
termination
  by (relation "measure (\<lambda>(x, xe, y, fb, acc). nat (xe + 1 - x))") auto

declare collect_row.simps [simp del]

function collect_rows ::
  "int \<Rightarrow> int \<Rightarrow> int \<Rightarrow> int \<Rightarrow> 16 word list \<Rightarrow> 16 word list \<Rightarrow> fault + 16 word list"
where
  "collect_rows y ye xs xe fb acc =
     (if y \<le> ye then
        (case collect_row xs xe y fb acc of
           Inl e \<Rightarrow> Inl e
         | Inr acc' \<Rightarrow> collect_rows (y + 1) ye xs xe fb acc')
      else Inr acc)"
  by pat_completeness auto
termination
  by (relation "measure (\<lambda>(y, ye, xs, xe, fb, acc). nat (ye + 1 - y))") auto

declare collect_rows.simps [simp del]

text \<open>\<open>Display::disp_flush_cb\<close>.  \<open>ipc_connected\<close> is the value of
  \<open>IPCClient::instance().is_connected()\<close>; the second component of the result is the
  \<open>ScreenUpdate\<close> handed to \<open>send_screen_update\<close>, if any.\<close>

definition disp_flush_cb ::
  "Display \<Rightarrow> bool \<Rightarrow> lv_area_t \<Rightarrow> 16 word list \<Rightarrow> fault + (Display \<times> ScreenUpdate option)"
where
  "disp_flush_cb self ipc_connected area color_p =
     (case flush_rows (sint (lv_area_t.y1 area)) (sint (lv_area_t.y2 area))
             (sint (lv_area_t.x1 area)) (sint (lv_area_t.x2 area)) color_p
             (framebuffer self, 0) of
        Inl e \<Rightarrow> Inl e
      | Inr (fb, cp) \<Rightarrow>
          (if ipc_connected then
             (case collect_rows (sint (lv_area_t.y1 area)) (sint (lv_area_t.y2 area))
                     (sint (lv_area_t.x1 area)) (sint (lv_area_t.x2 area)) fb [] of
                Inl e \<Rightarrow> Inl e
              | Inr px \<Rightarrow>
                  Inr (self\<lparr>framebuffer := fb\<rparr>,
                       Some \<lparr> x1 = sint (lv_area_t.x1 area), y1 = sint (lv_area_t.y1 area),
                              x2 = sint (lv_area_t.x2 area), y2 = sint (lv_area_t.y2 area),
                              pixels = px \<rparr>))
           else Inr (self\<lparr>framebuffer := fb\<rparr>, None)))"

text \<open>The guard \<open>x >= 0 && x < WIDTH && y >= 0 && y < HEIGHT\<close> of both loop bodies.\<close>

definition in_canvas :: "int \<Rightarrow> int \<Rightarrow> bool" where
  "in_canvas x y \<longleftrightarrow> 0 \<le> x \<and> x < WIDTH \<and> 0 \<le> y \<and> y < HEIGHT"

section \<open>Transport channel (host/ipc.hpp, host/ipc.cpp)\<close>

text \<open>A \<open>std::string\<close> is a list of 8-bit characters.  \<open>size()\<close> is a \<open>size_t\<close>, taken
  as 64 bits wide.\<close>

definition size_of :: "string \<Rightarrow> 64 word" where
  "size_of s = of_nat (length s)"

text \<open>\<open>static_cast<char>\<close> of a \<open>size_t\<close> value keeps the low eight bits.\<close>

definition to_char :: "64 word \<Rightarrow> char" where
  "to_char w = char_of (unat w)"

text \<open>The frame \<open>IPCClient::send_message\<close> assembles before calling \<open>send\<close>.\<close>

definition build_frame :: "string \<Rightarrow> string" where
  "build_frame json =
     [char_of (0x81 :: nat)]
     @ (if size_of json \<le> 125 then [to_char (size_of json)]
        else if size_of json \<le> 65535 then
          [to_char 126, to_char (drop_bit 8 (size_of json) AND 0xFF),
           to_char (size_of json AND 0xFF)]
        else
          to_char 127 #
          map (\<lambda>i. to_char (drop_bit (i * 8) (size_of json) AND 0xFF)) (rev [0 ..< 8]))
     @ json"

text \<open>\<open>send_message\<close>: nothing is sent when the client is not connected; otherwise the
  result is the byte string written to the socket.\<close>

definition send_message :: "bool \<Rightarrow> string \<Rightarrow> string option" where
  "send_message is_conn json = (if \<not> is_conn then None else Some (build_frame json))"

text \<open>The \<open>if\<close> / \<open>else if\<close> / \<open>else\<close> block of \<open>send_message\<close> on its own: the bytes
  between the opcode byte and the payload.\<close>

definition length_prefix :: "string \<Rightarrow> string" where
  "length_prefix json =
       (if size_of json \<le> 125 then [to_char (size_of json)]
        else if size_of json \<le> 65535 then
          [to_char 126, to_char (drop_bit 8 (size_of json) AND 0xFF),
           to_char (size_of json AND 0xFF)]
        else
          to_char 127 #
          map (\<lambda>i. to_char (drop_bit (i * 8) (size_of json) AND 0xFF)) (rev [0 ..< 8]))"

subsection \<open>Text records\<close>

text \<open>Decimal output of an integer by \<open>operator<<\<close>.\<close>

function show_nat :: "nat \<Rightarrow> string" where
  "show_nat n =
     (if n < 10 then [char_of (48 + n)]
      else show_nat (n div 10) @ [char_of (48 + n mod 10)])"
  by pat_completeness auto
termination
  by (relation "measure id") auto

declare show_nat.simps [simp del]

definition show_int :: "int \<Rightarrow> string" where
  "show_int i = (if i < 0 then CHR ''-'' # show_nat (nat (- i)) else show_nat (nat i))"

text \<open>What the stream prints, in its default format, for a \<open>double\<close> with a whole value of
  magnitude below \<open>10^6\<close>: the digits of that integer.\<close>

definition show_whole_double :: "real \<Rightarrow> string" where
  "show_whole_double d = show_int \<lfloor>d\<rfloor>"

text \<open>The text \<open>IPCClient::send_motor_telemetry\<close> passes to \<open>send_message\<close>.  The standard
  library's output operator for \<open>double\<close> is the parameter \<open>fmt\<close>.\<close>

definition motor_telemetry_text ::
  "(real \<Rightarrow> string) \<Rightarrow> 8 word \<Rightarrow> int \<Rightarrow> real \<Rightarrow> real \<Rightarrow> string" where
  "motor_telemetry_text fmt port volt vel pos =
     ''{\"type\":\"motor\",\"port\":'' @ show_int (uint port)
     @ '',\"voltage\":'' @ show_int volt
     @ '',\"velocity\":'' @ fmt vel
     @ '',\"position\":'' @ fmt pos @ ''}''"

definition send_motor_telemetry ::
  "bool \<Rightarrow> (real \<Rightarrow> string) \<Rightarrow> 8 word \<Rightarrow> int \<Rightarrow> real \<Rightarrow> real \<Rightarrow> string option" where
  "send_motor_telemetry is_conn fmt port volt vel pos =
     send_message is_conn (motor_telemetry_text fmt port volt vel pos)"

subsection \<open>Decoding inbound text\<close>

text \<open>\<open>std::string::find\<close>: the first position at which the needle occurs, \<open>None\<close> for
  \<open>npos\<close>.\<close>

fun str_find :: "string \<Rightarrow> string \<Rightarrow> nat option" where
  "str_find needle [] = (if needle = [] then Some 0 else None)"
| "str_find needle (c # cs) =
     (if prefix needle (c # cs) then Some 0 else map_option Suc (str_find needle cs))"

definition str_find_from :: "string \<Rightarrow> string \<Rightarrow> nat \<Rightarrow> nat option" where
  "str_find_from needle s pos =
     (if pos > length s then None
      else map_option (\<lambda>i. i + pos) (str_find needle (drop pos s)))"

text \<open>\<open>std::stoi\<close>: skips white space, reads an optional sign and decimal digits; throws
  \<open>std::invalid_argument\<close> without a digit and \<open>std::out_of_range\<close> outside \<open>int\<close>.\<close>

datatype parse_error = invalid_argument | out_of_range

definition is_space :: "char \<Rightarrow> bool" where
  "is_space c \<longleftrightarrow> c \<in> set [CHR '' '', CHR 0x09, CHR 0x0A, CHR 0x0B, CHR 0x0C, CHR 0x0D]"

definition is_digit :: "char \<Rightarrow> bool" where
  "is_digit c \<longleftrightarrow> (48 :: nat) \<le> of_char c \<and> (of_char c :: nat) \<le> 57"

definition digits_value :: "string \<Rightarrow> int" where
  "digits_value ds = foldl (\<lambda>acc c. acc * 10 + (of_char c - 48)) 0 ds"

definition stoi :: "string \<Rightarrow> parse_error + int" where
  "stoi s =
     (let s1 = dropWhile is_space s;
          neg = (s1 \<noteq> [] \<and> hd s1 = CHR ''-'');
          s2 = (if s1 \<noteq> [] \<and> (hd s1 = CHR ''-'' \<or> hd s1 = CHR ''+'') then tl s1 else s1);
          ds = takeWhile is_digit s2;
          v = (if neg then - digits_value ds else digits_value ds)
      in if ds = [] then Inl invalid_argument
         else if v < - (2 ^ 31) \<or> v > 2 ^ 31 - 1 then Inl out_of_range
         else Inr v)"

text \<open>\<open>TouchInput\<close> is declared without initialisers: a member that the decoder does not
  assign is indeterminate (\<open>None\<close>).\<close>

record TouchInput =
  touch_in_x :: "16 word option"
  touch_in_y :: "16 word option"
  touch_in_pressed :: "bool option"

record ControllerInput =
  lx :: int
  ly :: int
  rx :: int
  ry :: int
  buttons :: "32 word"

text \<open>Which of the four \<open>std::function\<close> callbacks are registered.\<close>

record callbacks =
  touch_callback :: bool
  controller_callback :: bool
  mode_callback :: bool
  auto_select_callback :: bool

text \<open>The callback invocation a message leads to.\<close>

datatype dispatch =
  Touch TouchInput
| Controller ControllerInput
| Mode string
| AutoSelect string int

text \<open>\<open>IPCClient::parse_message\<close>: the outcome is an escaping exception of \<open>std::stoi\<close>, or
  the callback invoked, if any.\<close>

definition parse_touch :: "string \<Rightarrow> parse_error + dispatch option" where
  "parse_touch json =
     (let xpos = str_find ''\"x\":'' json;
          ypos = str_find ''\"y\":'' json;
          ppos = str_find ''\"pressed\":'' json
      in case (case xpos of None \<Rightarrow> Inr None
                 | Some p \<Rightarrow> map_sum id Some (stoi (drop (p + 4) json))) of
           Inl e \<Rightarrow> Inl e
         | Inr x \<Rightarrow>
             (case (case ypos of None \<Rightarrow> Inr None
                      | Some p \<Rightarrow> map_sum id Some (stoi (drop (p + 4) json))) of
                Inl e \<Rightarrow> Inl e
              | Inr y \<Rightarrow>
                  Inr (Some (Touch
                    \<lparr> touch_in_x = map_option of_int x,
                      touch_in_y = map_option of_int y,
                      touch_in_pressed =
                        map_option (\<lambda>p. take 4 (drop (p + 10) json) = ''true'') ppos \<rparr>))))"

definition parse_mode :: "string \<Rightarrow> parse_error + dispatch option" where
  "parse_mode json =
     (case str_find ''\"value\":\"'' json of
        None \<Rightarrow> Inr None
      | Some vpos \<Rightarrow>
          (let start = vpos + 9 in
           case str_find_from ''\"'' json start of
             None \<Rightarrow> Inr (Some (Mode (drop start json)))
           | Some e \<Rightarrow> Inr (Some (Mode (take (e - start) (drop start json))))))"

definition parse_select_auto :: "string \<Rightarrow> parse_error + dispatch option" where
  "parse_select_auto json =
     (case (str_find ''\"category\":\"'' json, str_find ''\"index\":'' json) of
        (Some cpos, Some ipos) \<Rightarrow>
          (let cstart = cpos + 12;
               category = (case str_find_from ''\"'' json cstart of
                             None \<Rightarrow> drop cstart json
                           | Some cend \<Rightarrow> take (cend - cstart) (drop cstart json))
           in case stoi (drop (ipos + 8) json) of
                Inl e \<Rightarrow> Inl e
              | Inr index \<Rightarrow> Inr (Some (AutoSelect category index)))
      | _ \<Rightarrow> Inr None)"

definition parse_message :: "callbacks \<Rightarrow> string \<Rightarrow> parse_error + dispatch option" where
  "parse_message cb json =
     (if str_find ''\"type\":\"touch\"'' json \<noteq> None then
        (if touch_callback cb then parse_touch json else Inr None)
      else if str_find ''\"type\":\"controller\"'' json \<noteq> None then
        (if controller_callback cb
         then Inr (Some (Controller \<lparr> lx = 0, ly = 0, rx = 0, ry = 0, buttons = 0 \<rparr>))
         else Inr None)
      else if str_find ''\"type\":\"mode\"'' json \<noteq> None then
        (if mode_callback cb then parse_mode json else Inr None)
      else if str_find ''\"type\":\"select_auto\"'' json \<noteq> None then
        (if auto_select_callback cb then parse_select_auto json else Inr None)
      else Inr None)"

section \<open>Mode orchestrator (main.cpp)\<close>

text \<open>The functions a mode thread runs.\<close>

datatype mode_fn = autonomous | opcontrol

text \<open>The state the main loop and the mode callback work on: the store, the atomic global
  \<open>current_mode\<close>, the locals \<open>last_mode\<close> and \<open>mode_thread\<close> (\<open>None\<close> for \<open>nullptr\<close>) of
  \<open>main\<close>, and the threads started so far and not joined.  The loop never calls \<open>join\<close> or
  \<open>detach\<close>, so a \<open>std::thread\<close> it created stays joinable.\<close>

record 'd Orchestrator =
  hal :: "'d HAL"
  current_mode :: RobotMode
  last_mode :: RobotMode
  mode_thread :: "mode_fn option"
  started :: "mode_fn list"

definition Orchestrator_init :: "'d arith \<Rightarrow> 'd Orchestrator" where
  "Orchestrator_init A =
     \<lparr> hal = HAL_init A, current_mode = DISABLED, last_mode = DISABLED, mode_thread = None,
       started = [] \<rparr>"

text \<open>\<open>on_mode_change\<close>, the mode callback registered with the transport.\<close>

definition on_mode_change :: "'d Orchestrator \<Rightarrow> string \<Rightarrow> 'd Orchestrator" where
  "on_mode_change s m =
     (if m = ''disabled'' then
        s\<lparr>current_mode := DISABLED, hal := set_robot_mode (hal s) DISABLED\<rparr>
      else if m = ''autonomous'' then
        s\<lparr>current_mode := AUTONOMOUS, hal := set_robot_mode (hal s) AUTONOMOUS\<rparr>
      else if m = ''opcontrol'' then
        s\<lparr>current_mode := OPCONTROL, hal := set_robot_mode (hal s) OPCONTROL\<rparr>
      else s)"

text \<open>Destroying a joinable \<open>std::thread\<close> calls \<open>std::terminate\<close>.\<close>

datatype crash = Terminate

text \<open>\<open>if (mode_thread) delete mode_thread; mode_thread = new std::thread(f);\<close>\<close>

definition replace_mode_thread ::
  "'d Orchestrator \<Rightarrow> mode_fn \<Rightarrow> crash + 'd Orchestrator" where
  "replace_mode_thread s f =
     (if mode_thread s \<noteq> None then Inl Terminate
      else Inr (s\<lparr>mode_thread := Some f, started := started s @ [f]\<rparr>))"

text \<open>One iteration of the \<open>while (running)\<close> loop of \<open>main\<close>.  \<open>Display::update\<close>,
  \<open>process_messages\<close>, the default \<open>disabled()\<close> and the delay do not touch this state.\<close>

definition main_loop_iteration :: "'d arith \<Rightarrow> 'd Orchestrator \<Rightarrow> crash + 'd Orchestrator" where
  "main_loop_iteration A s =
     (let s1 = s\<lparr>hal := HAL_update A (hal s)\<rparr>;
          m = current_mode s1
      in if m \<noteq> last_mode s1 then
           (case (case m of
                    DISABLED \<Rightarrow> Inr s1
                  | AUTONOMOUS \<Rightarrow> replace_mode_thread s1 autonomous
                  | OPCONTROL \<Rightarrow> replace_mode_thread s1 opcontrol) of
              Inl e \<Rightarrow> Inl e
            | Inr s2 \<Rightarrow> Inr (s2\<lparr>last_mode := m\<rparr>))
         else Inr s1)"

text \<open>What happens to the orchestrator, one event at a time: a mode written by the transport
  callback, or one iteration of the main loop.\<close>

datatype event = ModeWrite string | Tick

fun run :: "'d arith \<Rightarrow> event list \<Rightarrow> 'd Orchestrator \<Rightarrow> crash + 'd Orchestrator" where
  "run A [] s = Inr s"
| "run A (ModeWrite m # evs) s = run A evs (on_mode_change s m)"
| "run A (Tick # evs) s =
     (case main_loop_iteration A s of Inl e \<Rightarrow> Inl e | Inr s' \<Rightarrow> run A evs s')"

text \<open>While the loop runs, the started threads are exactly the one \<open>mode_thread\<close> points to,
  if any.\<close>

definition orch_inv :: "'d Orchestrator \<Rightarrow> bool" where
  "orch_inv s \<longleftrightarrow> length (started s) = (if mode_thread s = None then 0 else 1)"

section \<open>Properties of the hardware state store\<close>

subsection \<open>Auxiliary facts\<close>

lemma port_index': "1 \<le> port \<Longrightarrow> port \<le> 21 \<Longrightarrow> unat (port :: 8 word) - 1 < 21"
  by (auto simp add: word_le_nat_alt)

lemma hal_wf_init: "hal_wf (HAL_init A)"
  by (simp add: hal_wf_def HAL_init_def ControllerState_default_def list_all_iff)

lemma motors_HAL_update: "motors (HAL_update A h) = map (update_motor A) (motors h)"
  by (simp add: HAL_update_def)

lemma update_motor_disconnected: "\<not> connected m \<Longrightarrow> update_motor A m = m"
  by (simp add: update_motor_def)

lemma length_motors_update_pow:
  "length (motors ((HAL_update A ^^ n) h)) = length (motors h)"
  by (induction n) (simp_all add: motors_HAL_update)

lemma update_pow_disconnected:
  "i < length (motors h) \<Longrightarrow> \<not> connected (motors h ! i) \<Longrightarrow>
     motors ((HAL_update A ^^ n) h) ! i = motors h ! i"
proof (induction n)
  case 0
  then show ?case by simp
next
  case (Suc n)
  then have "i < length (motors ((HAL_update A ^^ n) h))"
    by (simp add: length_motors_update_pow)
  with Suc show ?case
    by (simp add: motors_HAL_update update_motor_disconnected)
qed

subsection \<open>Commanded voltage\<close>

text \<open>
  Claim C2.  For every port in 1..21 and every voltage \<open>v\<close> in [-200, 200],
  \<open>set_motor\<close> stores \<open>v\<close> clamped to [-127, 127] as that motor's commanded voltage; for a
  port outside 1..21 the store is returned unchanged.
\<close>

theorem set_motor_stores_clamped:
  "(hal_wf h \<and> 1 \<le> port \<and> port \<le> 21 \<and> -200 \<le> v \<and> v \<le> 200 \<longrightarrow>
      voltage (motors (set_motor h port v) ! (unat port - 1)) = max (-127) (min 127 v)
    \<and> get_motor_voltage (set_motor h port v) port = max (-127) (min 127 v))
  \<and> (port < 1 \<or> port > 21 \<longrightarrow> set_motor h port v = h)"
  using port_index'[of port]
  by (auto simp: set_motor_def get_motor_voltage_def hal_wf_def clamp_def not_less not_le)

theorem set_motor_stores_clamped_witness:
  "hal_wf (HAL_init exact_arith) \<and> (1::8 word) \<le> 1 \<and> (1::8 word) \<le> 21
   \<and> (-200::int) \<le> 200 \<and> (200::int) \<le> 200
   \<and> get_motor_voltage (set_motor (HAL_init exact_arith) 1 200) 1 = 127
   \<and> ((0::8 word) < 1 \<or> (0::8 word) > 21)
   \<and> set_motor (HAL_init exact_arith) 0 55 = HAL_init exact_arith"
  using set_motor_stores_clamped[of "HAL_init exact_arith" 1 200]
    set_motor_stores_clamped[of "HAL_init exact_arith" 0 55] hal_wf_init[of exact_arith]
  by simp

subsection \<open>Out-of-range addressing\<close>

text \<open>
  Claim C6.  The claim is that for every controller id outside {0, 1} every getter returns a
  default value and every setter leaves the store unchanged.  The guard \<open>id > 1\<close> of the
  controller accessors is a signed comparison: for the id -1 (the 32-bit value 0xFFFFFFFF) it
  does not hold, and each accessor goes on to index the array of the two controllers at that
  id, outside the array.  The same holds for a negative channel or button with a valid id.
\<close>

theorem controller_id_negative:
  "get_controller_battery_level (HAL_init A) (- 1) = Inl ReadOutOfBounds
   \<and> get_controller_battery_capacity (HAL_init A) (- 1) = Inl ReadOutOfBounds
   \<and> is_controller_connected (HAL_init A) (- 1) = Inl ReadOutOfBounds
   \<and> get_controller_state (HAL_init A) (- 1) = Inl ReadOutOfBounds
   \<and> get_controller_analog (HAL_init A) (- 1) 0 = Inl ReadOutOfBounds
   \<and> get_controller_digital (HAL_init A) (- 1) 6 = Inl ReadOutOfBounds
   \<and> set_controller_connected (HAL_init A) (- 1) False = Inl WriteOutOfBounds
   \<and> set_controller_analog (HAL_init A) (- 1) 0 100 = Inl WriteOutOfBounds
   \<and> set_controller_digital (HAL_init A) (- 1) 6 True = Inl WriteOutOfBounds
   \<and> get_controller_analog (HAL_init A) 0 (- 1) = Inl ReadOutOfBounds
   \<and> get_controller_digital (HAL_init A) 0 (- 1) = Inl ReadOutOfBounds"
  by (simp add: get_controller_battery_level_def get_controller_battery_capacity_def
      is_controller_connected_def get_controller_state_def get_controller_analog_def
      get_controller_digital_def set_controller_connected_def set_controller_analog_def
      set_controller_digital_def index_ok_def HAL_init_def ControllerState_default_def)

text \<open>The rest of the claim holds: for a motor port outside 1..21, a text-display line index
  outside 0..7 and a controller id above 1, the getters return their defaults and the setters
  return the store unchanged.\<close>

lemma guarded_addresses_default:
  fixes port :: "8 word" and ident :: "32 word" and line :: "16 word"
  assumes "port < 1 \<or> port > 21" and "sint ident > 1" and "sint line < 0 \<or> sint line > 7"
  shows "set_motor h port v = h \<and> set_motor_velocity h port v = h
       \<and> set_motor_position h port p = h \<and> set_motor_gearset h port g = h
       \<and> set_motor_reversed h port b = h \<and> set_motor_connected h port b = h
       \<and> get_motor_voltage h port = 0 \<and> get_motor_velocity h port = 0
       \<and> get_motor_position A h port = fp_lit A 0
       \<and> get_motor_actual_velocity A h port = fp_lit A 0
       \<and> get_motor_current h port = 0 \<and> get_motor_temperature A h port = fp_lit A 0
       \<and> get_motor_gearset h port = E_MOTOR_GEARSET_INVALID
       \<and> get_motor_reversed h port = False \<and> is_motor_connected h port = False
       \<and> get_motor_state A h port = MotorState_default A
       \<and> set_controller_analog h ident channel v = Inr h
       \<and> set_controller_digital h ident button b = Inr h
       \<and> set_controller_connected h ident b = Inr h
       \<and> get_controller_analog h ident channel = Inr 0
       \<and> get_controller_digital h ident button = Inr False
       \<and> is_controller_connected h ident = Inr False
       \<and> get_controller_battery_capacity h ident = Inr 0
       \<and> get_controller_battery_level h ident = Inr 0
       \<and> get_controller_state h ident = Inr ControllerState_default
       \<and> lcd_set_text h line txt = h \<and> lcd_get_text h line = []
       \<and> lcd_clear_line h line = h"
  using assms
  by (simp add: set_motor_def set_motor_velocity_def set_motor_position_def
      set_motor_gearset_def set_motor_reversed_def set_motor_connected_def
      get_motor_voltage_def get_motor_velocity_def get_motor_position_def
      get_motor_actual_velocity_def get_motor_current_def get_motor_temperature_def
      get_motor_gearset_def get_motor_reversed_def is_motor_connected_def get_motor_state_def
      set_controller_analog_def set_controller_digital_def set_controller_connected_def
      get_controller_analog_def get_controller_digital_def is_controller_connected_def
      get_controller_battery_capacity_def get_controller_battery_level_def
      get_controller_state_def lcd_set_text_def lcd_get_text_def lcd_clear_line_def)

subsection \<open>Disconnected motors\<close>

text \<open>
  Claim C10.  A default-constructed motor, and so every motor of the initial store, has
  \<open>connected = false\<close>; \<open>HAL::update\<close> leaves every field of a motor with
  \<open>connected = false\<close> unchanged; hence after \<open>set_motor\<close> on a port that is not connected,
  any number of ticks leaves that motor as \<open>set_motor\<close> left it.  This holds whatever the
  arithmetic of \<open>double\<close> is.
\<close>

theorem disconnected_motor_frozen:
  "\<not> connected (MotorState_default A)
   \<and> (\<forall>i < 21. \<not> connected (motors (HAL_init A) ! i))
   \<and> (hal_wf h \<and> i < 21 \<and> \<not> connected (motors h ! i) \<longrightarrow>
        motors (HAL_update A h) ! i = motors h ! i)
   \<and> (hal_wf h \<and> 1 \<le> port \<and> port \<le> 21 \<and> \<not> connected (motors h ! (unat port - 1)) \<longrightarrow>
        motors ((HAL_update A ^^ n) (set_motor h port v)) ! (unat port - 1)
          = motors (set_motor h port v) ! (unat port - 1))"
proof (intro conjI impI allI)
  show "\<not> connected (MotorState_default A)" by (simp add: MotorState_default_def)
next
  fix j :: nat assume "j < 21"
  then show "\<not> connected (motors (HAL_init A) ! j)"
    by (simp add: HAL_init_def MotorState_default_def)
next
  assume "hal_wf h \<and> i < 21 \<and> \<not> connected (motors h ! i)"
  then show "motors (HAL_update A h) ! i = motors h ! i"
    by (simp add: HAL_update_def hal_wf_def update_motor_disconnected)
next
  assume a: "hal_wf h \<and> 1 \<le> port \<and> port \<le> 21 \<and> \<not> connected (motors h ! (unat port - 1))"
  let ?h = "set_motor h port v" and ?i = "unat port - 1"
  from a have i: "?i < 21" using port_index'[of port] by simp
  from a have len: "length (motors ?h) = 21" by (simp add: set_motor_def hal_wf_def)
  from a i have "\<not> connected (motors ?h ! ?i)"
    by (auto simp: set_motor_def hal_wf_def)
  with i len show "motors ((HAL_update A ^^ n) ?h) ! ?i = motors ?h ! ?i"
    by (simp add: update_pow_disconnected)
qed

theorem disconnected_motor_frozen_witness:
  "get_motor_voltage
     ((HAL_update exact_arith ^^ 50) (set_motor (HAL_init exact_arith) 1 127)) 1 = 127
   \<and> get_motor_actual_velocity exact_arith
        ((HAL_update exact_arith ^^ 50) (set_motor (HAL_init exact_arith) 1 127)) 1 = 0
   \<and> get_motor_current
        ((HAL_update exact_arith ^^ 50) (set_motor (HAL_init exact_arith) 1 127)) 1 = 0
   \<and> get_motor_position exact_arith
        ((HAL_update exact_arith ^^ 50) (set_motor (HAL_init exact_arith) 1 127)) 1 = 0
   \<and> get_motor_temperature exact_arith
        ((HAL_update exact_arith ^^ 50) (set_motor (HAL_init exact_arith) 1 127)) 1 = 25"
proof -
  let ?A = "exact_arith" and ?h0 = "HAL_init exact_arith"
  have c: "\<not> connected (motors ?h0 ! (unat (1 :: 8 word) - 1))"
    by (simp add: HAL_init_def MotorState_default_def)
  have "motors ((HAL_update ?A ^^ 50) (set_motor ?h0 1 127)) ! (unat (1 :: 8 word) - 1)
          = motors (set_motor ?h0 1 127) ! (unat (1 :: 8 word) - 1)"
    using disconnected_motor_frozen[of ?A ?h0 0 1 50 127] hal_wf_init[of ?A] c by simp
  then show ?thesis
    by (simp add: get_motor_voltage_def get_motor_actual_velocity_def get_motor_current_def
        get_motor_position_def get_motor_temperature_def set_motor_def HAL_init_def
        MotorState_default_def clamp_def exact_arith_def)
qed

section \<open>Properties of the display bridge\<close>

lemma idx_bounds:
  "in_canvas x y \<Longrightarrow> 0 \<le> y * WIDTH + x \<and> y * WIDTH + x < BUFFER_SIZE"
  unfolding in_canvas_def WIDTH_def HEIGHT_def BUFFER_SIZE_def by auto

lemma idx_inj:
  "in_canvas x y \<Longrightarrow> in_canvas x' y' \<Longrightarrow>
     nat (y' * WIDTH + x') = nat (y * WIDTH + x) \<longleftrightarrow> x' = x \<and> y' = y"
proof -
  assume a: "in_canvas x y" "in_canvas x' y'"
  then have "nat (y' * WIDTH + x') = nat (y * WIDTH + x) \<longleftrightarrow> y' * WIDTH + x' = y * WIDTH + x"
    unfolding in_canvas_def WIDTH_def HEIGHT_def by auto
  also have "\<dots> \<longleftrightarrow> x' = x \<and> y' = y"
  proof
    assume e: "y' * WIDTH + x' = y * WIDTH + x"
    have "(y' * WIDTH + x') div WIDTH = y'" "(y * WIDTH + x) div WIDTH = y"
      using a unfolding in_canvas_def WIDTH_def by simp_all
    with e have "y' = y" by simp
    with e show "x' = x \<and> y' = y" by simp
  qed simp
  finally show ?thesis .
qed

lemma flush_row_correct:
  assumes "int (length fb) = BUFFER_SIZE" and "0 \<le> cp"
    and "x \<le> xe \<Longrightarrow> cp + (xe + 1 - x) \<le> int (length src)"
  shows "\<exists>fb'. flush_row x xe y src (fb, cp) = Inr (fb', cp + max 0 (xe + 1 - x))
           \<and> length fb' = length fb
           \<and> (\<forall>x' y'. in_canvas x' y' \<longrightarrow>
                 fb' ! nat (y' * WIDTH + x')
                   = (if y' = y \<and> x \<le> x' \<and> x' \<le> xe then src ! nat (cp + (x' - x))
                      else fb ! nat (y' * WIDTH + x')))"
  using assms
proof (induction "nat (xe + 1 - x)" arbitrary: x fb cp)
  case 0
  then have "\<not> x \<le> xe" by simp
  then show ?case by (subst flush_row.simps) auto
next
  case (Suc n)
  then have le: "x \<le> xe" and n: "n = nat (xe + 1 - (x + 1))" by simp_all
  have src: "cp + 1 + (xe + 1 - (x + 1)) \<le> int (length src)" using Suc.prems(3)[OF le] by simp
  have cp1: "0 \<le> cp + 1" using Suc.prems(2) by simp
  have mx: "cp + 1 + max 0 (xe + 1 - (x + 1)) = cp + max 0 (xe + 1 - x)" using le by simp
  show ?case
  proof (cases "in_canvas x y")
    case True
    let ?fb1 = "fb[nat (y * WIDTH + x) := src ! nat cp]"
    have len1: "int (length ?fb1) = BUFFER_SIZE" using Suc.prems(1) by simp
    from Suc.hyps(1)[OF n len1 cp1] src
    obtain fb' where r: "flush_row (x + 1) xe y src (?fb1, cp + 1)
                           = Inr (fb', cp + 1 + max 0 (xe + 1 - (x + 1)))"
      and l: "length fb' = length ?fb1"
      and c: "\<forall>x' y'. in_canvas x' y' \<longrightarrow>
                 fb' ! nat (y' * WIDTH + x')
                   = (if y' = y \<and> x + 1 \<le> x' \<and> x' \<le> xe then src ! nat (cp + 1 + (x' - (x + 1)))
                      else ?fb1 ! nat (y' * WIDTH + x'))"
      by auto
    have rd: "0 \<le> cp \<and> cp < int (length src)" using Suc.prems(2) src le by simp
    have wr: "0 \<le> y * WIDTH + x \<and> y * WIDTH + x < int (length fb)"
      using idx_bounds[OF True] Suc.prems(1) by simp
    then have wr': "nat (y * WIDTH + x) < length fb" by linarith
    have eq: "flush_row x xe y src (fb, cp) = Inr (fb', cp + max 0 (xe + 1 - x))"
      using le True rd wr r mx by (subst flush_row.simps) (simp add: in_canvas_def)
    have "fb' ! nat (y' * WIDTH + x')
            = (if y' = y \<and> x \<le> x' \<and> x' \<le> xe then src ! nat (cp + (x' - x))
               else fb ! nat (y' * WIDTH + x'))" if ic: "in_canvas x' y'" for x' y'
    proof (cases "x' = x \<and> y' = y")
      case True
      then show ?thesis using c ic wr' le by simp
    next
      case False
      then have "nat (y' * WIDTH + x') \<noteq> nat (y * WIDTH + x)"
        using idx_inj[OF \<open>in_canvas x y\<close> ic] by simp
      then have "?fb1 ! nat (y' * WIDTH + x') = fb ! nat (y' * WIDTH + x')" by simp
      moreover have "cp + 1 + (x' - (x + 1)) = cp + (x' - x)" by simp
      ultimately show ?thesis using c ic False by auto
    qed
    with eq l show ?thesis by auto
  next
    case False
    from Suc.hyps(1)[OF n Suc.prems(1) cp1] src
    obtain fb' where r: "flush_row (x + 1) xe y src (fb, cp + 1)
                           = Inr (fb', cp + 1 + max 0 (xe + 1 - (x + 1)))"
      and l: "length fb' = length fb"
      and c: "\<forall>x' y'. in_canvas x' y' \<longrightarrow>
                 fb' ! nat (y' * WIDTH + x')
                   = (if y' = y \<and> x + 1 \<le> x' \<and> x' \<le> xe then src ! nat (cp + 1 + (x' - (x + 1)))
                      else fb ! nat (y' * WIDTH + x'))"
      by auto
    have eq: "flush_row x xe y src (fb, cp) = Inr (fb', cp + max 0 (xe + 1 - x))"
      using le False r mx by (subst flush_row.simps) (auto simp add: in_canvas_def)
    have "fb' ! nat (y' * WIDTH + x')
            = (if y' = y \<and> x \<le> x' \<and> x' \<le> xe then src ! nat (cp + (x' - x))
               else fb ! nat (y' * WIDTH + x'))" if ic: "in_canvas x' y'" for x' y'
    proof -
      have "\<not> (x' = x \<and> y' = y)" using False ic by auto
      moreover have "cp + 1 + (x' - (x + 1)) = cp + (x' - x)" by simp
      ultimately show ?thesis using c ic by auto
    qed
    with eq l show ?thesis by auto
  qed
qed


lemma flush_rows_correct:
  assumes "int (length fb) = BUFFER_SIZE" and "0 \<le> cp" and "w = max 0 (xe + 1 - xs)"
    and "y \<le> ye \<Longrightarrow> cp + (ye + 1 - y) * w \<le> int (length src)"
  shows "\<exists>fb'. flush_rows y ye xs xe src (fb, cp) = Inr (fb', cp + max 0 (ye + 1 - y) * w)
           \<and> length fb' = length fb
           \<and> (\<forall>x' y'. in_canvas x' y' \<longrightarrow>
                 fb' ! nat (y' * WIDTH + x')
                   = (if y \<le> y' \<and> y' \<le> ye \<and> xs \<le> x' \<and> x' \<le> xe
                      then src ! nat (cp + (y' - y) * w + (x' - xs))
                      else fb ! nat (y' * WIDTH + x')))"
  using assms
proof (induction "nat (ye + 1 - y)" arbitrary: y fb cp)
  case 0
  then have "\<not> y \<le> ye" by simp
  then show ?case by (subst flush_rows.simps) auto
next
  case (Suc n)
  then have le: "y \<le> ye" and n: "n = nat (ye + 1 - (y + 1))" by simp_all
  have w0: "0 \<le> w" using Suc.prems(3) by simp
  have tot: "cp + (ye + 1 - y) * w \<le> int (length src)" using Suc.prems(4)[OF le] .
  have split: "(ye + 1 - y) * w = w + (ye + 1 - (y + 1)) * w" by (simp add: algebra_simps)
  have rest0: "0 \<le> (ye + 1 - (y + 1)) * w" using le w0 by simp
  have roww: "xs \<le> xe \<Longrightarrow> cp + (xe + 1 - xs) \<le> int (length src)"
    using tot split rest0 Suc.prems(3) by simp
  from flush_row_correct[OF Suc.prems(1) Suc.prems(2) roww, of y]
  obtain fb1 where r1: "flush_row xs xe y src (fb, cp) = Inr (fb1, cp + w)"
    and l1: "length fb1 = length fb"
    and c1: "\<forall>x' y'. in_canvas x' y' \<longrightarrow>
                 fb1 ! nat (y' * WIDTH + x')
                   = (if y' = y \<and> xs \<le> x' \<and> x' \<le> xe then src ! nat (cp + (x' - xs))
                      else fb ! nat (y' * WIDTH + x'))"
    using Suc.prems(3) by auto
  have len1: "int (length fb1) = BUFFER_SIZE" using l1 Suc.prems(1) by simp
  have cpw: "0 \<le> cp + w" using Suc.prems(2) w0 by simp
  have tot1: "cp + w + (ye + 1 - (y + 1)) * w \<le> int (length src)" using tot split by simp
  from Suc.hyps(1)[OF n len1 cpw Suc.prems(3) tot1]
  obtain fb' where r: "flush_rows (y + 1) ye xs xe src (fb1, cp + w)
                         = Inr (fb', cp + w + max 0 (ye + 1 - (y + 1)) * w)"
    and l: "length fb' = length fb1"
    and c: "\<forall>x' y'. in_canvas x' y' \<longrightarrow>
                 fb' ! nat (y' * WIDTH + x')
                   = (if y + 1 \<le> y' \<and> y' \<le> ye \<and> xs \<le> x' \<and> x' \<le> xe
                      then src ! nat (cp + w + (y' - (y + 1)) * w + (x' - xs))
                      else fb1 ! nat (y' * WIDTH + x'))"
    by auto
  have mx: "cp + w + max 0 (ye + 1 - (y + 1)) * w = cp + max 0 (ye + 1 - y) * w"
    using le by (simp add: algebra_simps)
  have eq: "flush_rows y ye xs xe src (fb, cp) = Inr (fb', cp + max 0 (ye + 1 - y) * w)"
    using le r1 r mx by (subst flush_rows.simps) simp
  have "fb' ! nat (y' * WIDTH + x')
          = (if y \<le> y' \<and> y' \<le> ye \<and> xs \<le> x' \<and> x' \<le> xe
             then src ! nat (cp + (y' - y) * w + (x' - xs))
             else fb ! nat (y' * WIDTH + x'))" if ic: "in_canvas x' y'" for x' y'
  proof -
    have off: "\<And>a b. cp + w + (b - (y + 1)) * w + (a - xs) = cp + (b - y) * w + (a - xs)"
      by (simp add: algebra_simps)
    have c': "fb' ! nat (y' * WIDTH + x')
                = (if y + 1 \<le> y' \<and> y' \<le> ye \<and> xs \<le> x' \<and> x' \<le> xe
                   then src ! nat (cp + (y' - y) * w + (x' - xs))
                   else fb1 ! nat (y' * WIDTH + x'))"
      using c ic unfolding off by blast
    consider "y' = y" | "y + 1 \<le> y'" | "y' < y" by linarith
    then show ?thesis
    proof cases
      case 1
      then show ?thesis using c' c1 ic le by simp
    next
      case 2
      then show ?thesis using c' c1 ic by simp
    next
      case 3
      then show ?thesis using c' c1 ic by simp
    qed
  qed
  with eq l l1 show ?case by auto
qed


lemma collect_row_total:
  assumes "int (length fb) = BUFFER_SIZE"
  shows "\<exists>px. collect_row x xe y fb acc = Inr px"
  using assms
proof (induction "nat (xe + 1 - x)" arbitrary: x acc)
  case 0
  then have "\<not> x \<le> xe" by simp
  then show ?case by (subst collect_row.simps) auto
next
  case (Suc n)
  then have le: "x \<le> xe" and n: "n = nat (xe + 1 - (x + 1))" by simp_all
  show ?case
  proof (cases "in_canvas x y")
    case True
    then have "0 \<le> y * WIDTH + x \<and> y * WIDTH + x < int (length fb)"
      using idx_bounds Suc.prems by simp
    moreover obtain px where
      "collect_row (x + 1) xe y fb (acc @ [fb ! nat (y * WIDTH + x)]) = Inr px"
      using Suc.hyps(1)[OF n Suc.prems] by blast
    ultimately show ?thesis
      using le True by (subst collect_row.simps) (auto simp: in_canvas_def)
  next
    case False
    moreover obtain px where "collect_row (x + 1) xe y fb acc = Inr px"
      using Suc.hyps(1)[OF n Suc.prems] by blast
    ultimately show ?thesis
      using le by (subst collect_row.simps) (auto simp: in_canvas_def)
  qed
qed

lemma collect_rows_total:
  assumes "int (length fb) = BUFFER_SIZE"
  shows "\<exists>px. collect_rows y ye xs xe fb acc = Inr px"
  using assms
proof (induction "nat (ye + 1 - y)" arbitrary: y acc)
  case 0
  then have "\<not> y \<le> ye" by simp
  then show ?case by (subst collect_rows.simps) auto
next
  case (Suc n)
  then have le: "y \<le> ye" and n: "n = nat (ye + 1 - (y + 1))" by simp_all
  obtain acc' where r: "collect_row xs xe y fb acc = Inr acc'"
    using collect_row_total[OF Suc.prems] by blast
  obtain px where "collect_rows (y + 1) ye xs xe fb acc' = Inr px"
    using Suc.hyps(1)[OF n Suc.prems] by blast
  with r le show ?case by (subst collect_rows.simps) simp
qed

lemma cell_coords:
  assumes "int i < BUFFER_SIZE"
  shows "in_canvas (int i mod WIDTH) (int i div WIDTH)"
    and "nat ((int i div WIDTH) * WIDTH + int i mod WIDTH) = i"
proof -
  have "0 \<le> int i div WIDTH" by (simp add: WIDTH_def)
  moreover have "int i div WIDTH < HEIGHT"
    using assms by (simp add: WIDTH_def HEIGHT_def BUFFER_SIZE_def)
  moreover have "0 \<le> int i mod WIDTH" "int i mod WIDTH < WIDTH" by (simp_all add: WIDTH_def)
  ultimately show "in_canvas (int i mod WIDTH) (int i div WIDTH)" by (simp add: in_canvas_def)
  show "nat ((int i div WIDTH) * WIDTH + int i mod WIDTH) = i" by simp
qed

subsection \<open>The flush writes the clamped intersection\<close>

text \<open>
  Claim C5.  A flush of any rectangle, also one lying partly or wholly outside the 480x272
  canvas, completes without an out-of-range array access, keeps the size of the framebuffer, and
  leaves every cell as follows: a cell whose coordinates lie in the rectangle holds the source
  pixel at its row-major position within the rectangle, every other cell keeps its previous
  value.  The source buffer holds at least width x height pixels of the rectangle.
\<close>

theorem flush_writes_clamped_intersection:
  assumes "int (length (framebuffer self)) = BUFFER_SIZE"
    and "max 0 (sint (lv_area_t.y2 area) + 1 - sint (lv_area_t.y1 area))
           * max 0 (sint (lv_area_t.x2 area) + 1 - sint (lv_area_t.x1 area))
         \<le> int (length color_p)"
  shows "\<exists>d upd. disp_flush_cb self ipc_connected area color_p = Inr (d, upd)
           \<and> length (framebuffer d) = length (framebuffer self)
           \<and> (\<forall>i < length (framebuffer self).
                 framebuffer d ! i
                   = (if sint (lv_area_t.x1 area) \<le> int i mod WIDTH
                         \<and> int i mod WIDTH \<le> sint (lv_area_t.x2 area)
                         \<and> sint (lv_area_t.y1 area) \<le> int i div WIDTH
                         \<and> int i div WIDTH \<le> sint (lv_area_t.y2 area)
                      then color_p ! nat ((int i div WIDTH - sint (lv_area_t.y1 area))
                                            * (sint (lv_area_t.x2 area) + 1 - sint (lv_area_t.x1 area))
                                          + (int i mod WIDTH - sint (lv_area_t.x1 area)))
                      else framebuffer self ! i))"
proof -
  let ?X1 = "sint (lv_area_t.x1 area)" and ?X2 = "sint (lv_area_t.x2 area)"
  let ?Y1 = "sint (lv_area_t.y1 area)" and ?Y2 = "sint (lv_area_t.y2 area)"
  let ?w = "max 0 (?X2 + 1 - ?X1)"
  have tot: "?Y1 \<le> ?Y2 \<Longrightarrow> 0 + (?Y2 + 1 - ?Y1) * ?w \<le> int (length color_p)"
    using assms(2) by simp
  have z: "(0 :: int) \<le> 0" by simp
  from flush_rows_correct[OF assms(1) z refl tot]
  obtain fb' where r: "flush_rows ?Y1 ?Y2 ?X1 ?X2 color_p (framebuffer self, 0)
                         = Inr (fb', 0 + max 0 (?Y2 + 1 - ?Y1) * ?w)"
    and l: "length fb' = length (framebuffer self)"
    and c: "\<forall>x' y'. in_canvas x' y' \<longrightarrow>
              fb' ! nat (y' * WIDTH + x')
                = (if ?Y1 \<le> y' \<and> y' \<le> ?Y2 \<and> ?X1 \<le> x' \<and> x' \<le> ?X2
                   then color_p ! nat (0 + (y' - ?Y1) * ?w + (x' - ?X1))
                   else framebuffer self ! nat (y' * WIDTH + x'))"
    by auto
  have len': "int (length fb') = BUFFER_SIZE" using l assms(1) by simp
  obtain px where px: "collect_rows ?Y1 ?Y2 ?X1 ?X2 fb' [] = Inr px"
    using collect_rows_total[OF len'] by blast
  have res: "disp_flush_cb self ipc_connected area color_p
               = Inr (self\<lparr>framebuffer := fb'\<rparr>,
                      if ipc_connected
                      then Some \<lparr> x1 = ?X1, y1 = ?Y1, x2 = ?X2, y2 = ?Y2, pixels = px \<rparr>
                      else None)"
    by (simp add: disp_flush_cb_def r px)
  have cell: "fb' ! i
                = (if ?X1 \<le> int i mod WIDTH \<and> int i mod WIDTH \<le> ?X2
                      \<and> ?Y1 \<le> int i div WIDTH \<and> int i div WIDTH \<le> ?Y2
                   then color_p ! nat ((int i div WIDTH - ?Y1) * (?X2 + 1 - ?X1)
                                        + (int i mod WIDTH - ?X1))
                   else framebuffer self ! i)" if i: "i < length (framebuffer self)" for i
  proof -
    have ib: "int i < BUFFER_SIZE" using i assms(1) by simp
    note cc = cell_coords[OF ib]
    have "?X1 \<le> int i mod WIDTH \<and> int i mod WIDTH \<le> ?X2 \<Longrightarrow> ?w = ?X2 + 1 - ?X1" by simp
    then show ?thesis using c[rule_format, OF cc(1)] unfolding cc(2) by auto
  qed
  show ?thesis using res l cell by simp
qed


theorem flush_writes_clamped_intersection_witness:
  "int (length (framebuffer Display_new)) = BUFFER_SIZE
   \<and> (\<exists>d upd. disp_flush_cb Display_new False
                  \<lparr> lv_area_t.x1 = 478, y1 = 0, x2 = 481, y2 = 0 \<rparr> [1, 2, 3, 4] = Inr (d, upd)
          \<and> length (framebuffer d) = 130560
          \<and> framebuffer d ! 477 = 0 \<and> framebuffer d ! 478 = 1 \<and> framebuffer d ! 479 = 2
          \<and> framebuffer d ! 480 = 0)"
proof -
  let ?a = "\<lparr> lv_area_t.x1 = 478, y1 = 0, x2 = 481, y2 = 0 \<rparr>"
  have len: "int (length (framebuffer Display_new)) = BUFFER_SIZE"
    by (simp add: Display_new_def BUFFER_SIZE_def WIDTH_def HEIGHT_def)
  have src: "max 0 (sint (lv_area_t.y2 ?a) + 1 - sint (lv_area_t.y1 ?a))
               * max 0 (sint (lv_area_t.x2 ?a) + 1 - sint (lv_area_t.x1 ?a))
             \<le> int (length [1, 2, 3, 4 :: 16 word])"
    by simp
  from flush_writes_clamped_intersection[OF len src, of False]
  obtain d upd where r: "disp_flush_cb Display_new False ?a [1, 2, 3, 4] = Inr (d, upd)"
    and l: "length (framebuffer d) = length (framebuffer Display_new)"
    and c: "\<forall>i < length (framebuffer Display_new).
                 framebuffer d ! i
                   = (if sint (lv_area_t.x1 ?a) \<le> int i mod WIDTH
                         \<and> int i mod WIDTH \<le> sint (lv_area_t.x2 ?a)
                         \<and> sint (lv_area_t.y1 ?a) \<le> int i div WIDTH
                         \<and> int i div WIDTH \<le> sint (lv_area_t.y2 ?a)
                      then [1, 2, 3, 4] ! nat ((int i div WIDTH - sint (lv_area_t.y1 ?a))
                                            * (sint (lv_area_t.x2 ?a) + 1 - sint (lv_area_t.x1 ?a))
                                          + (int i mod WIDTH - sint (lv_area_t.x1 ?a)))
                      else framebuffer Display_new ! i)"
    by blast
  have n: "length (framebuffer Display_new) = 130560"
    by (simp add: Display_new_def BUFFER_SIZE_def WIDTH_def HEIGHT_def)
  have "framebuffer d ! 477 = 0" "framebuffer d ! 478 = 1" "framebuffer d ! 479 = 2"
    "framebuffer d ! 480 = 0"
    using c[rule_format, of 477] c[rule_format, of 478] c[rule_format, of 479]
      c[rule_format, of 480]
    by (simp_all add: n WIDTH_def) (simp_all add: Display_new_def BUFFER_SIZE_def WIDTH_def HEIGHT_def)
  with r l n len show ?thesis by simp
qed

subsection \<open>The screen record of a rectangle past the canvas edge\<close>

text \<open>
  Claim C4.  The claim is that the emitted \<open>ScreenUpdate\<close> always has its rectangle within the
  canvas and exactly (x2-x1+1)*(y2-y1+1) pixels.  For the rectangle (478, 0)-(481, 0), which
  passes the right edge, the record carries the corners unclamped (x2 = 481) and only the two
  pixels that are inside the canvas, not four.
\<close>

theorem screen_update_past_edge:
  "disp_flush_cb Display_new True \<lparr> lv_area_t.x1 = 478, y1 = 0, x2 = 481, y2 = 0 \<rparr> [1, 2, 3, 4]
     = Inr (Display_new\<lparr>framebuffer := (framebuffer Display_new)[478 := 1, 479 := 2]\<rparr>,
            Some \<lparr> x1 = 478, y1 = 0, x2 = 481, y2 = 0, pixels = [1, 2] \<rparr>)
   \<and> \<not> (481 :: int) < WIDTH
   \<and> length [1, 2 :: 16 word] \<noteq> nat ((481 - 478 + 1) * (0 - 0 + 1))"
  by (simp add: disp_flush_cb_def Display_new_def flush_rows.simps flush_row.simps
      collect_rows.simps collect_row.simps WIDTH_def HEIGHT_def BUFFER_SIZE_def)

section \<open>Properties of the transport channel\<close>

lemma mask8: "(0xFF :: 64 word) = mask 8" by (simp add: mask_eq_exp_minus_1)

lemma unat_byte: "unat (drop_bit k (w :: 64 word) AND 0xFF) = unat w div 2 ^ k mod 256"
proof -
  have "drop_bit k w AND 0xFF = take_bit 8 (drop_bit k w)"
    unfolding mask8 by (simp add: take_bit_eq_mask)
  then have "unat (drop_bit k w AND 0xFF) = take_bit 8 (drop_bit k (unat w))"
    by (simp only: unsigned_take_bit_eq unat_drop_bit_eq)
  then show ?thesis by (simp add: take_bit_eq_mod drop_bit_eq_div)
qed

lemma unat_low_byte: "unat ((w :: 64 word) AND 0xFF) = unat w mod 256"
  using unat_byte[of 0 w] by simp

lemma of_char_to_char: "(of_char (to_char w) :: nat) = unat w mod 256"
  by (simp add: to_char_def)

lemma unat_size_of: "length s < 2 ^ 64 \<Longrightarrow> unat (size_of s) = length s"
  by (simp add: size_of_def unat_of_nat take_bit_eq_mod)

lemma size_of_le: "length s < 2 ^ 64 \<Longrightarrow> size_of s \<le> 125 \<longleftrightarrow> length s \<le> 125"
    "length s < 2 ^ 64 \<Longrightarrow> size_of s \<le> 65535 \<longleftrightarrow> length s \<le> 65535"
  by (simp_all add: word_le_nat_alt unat_size_of)

lemma frame_byte:
  "length s < 2 ^ 64 \<Longrightarrow>
     (of_char (to_char (drop_bit k (size_of s) AND 0xFF)) :: nat) = length s div 2 ^ k mod 256"
  by (simp only: of_char_to_char unat_byte unat_size_of mod_mod_trivial)

lemma frame_low_byte:
  "length s < 2 ^ 64 \<Longrightarrow> (of_char (to_char (size_of s AND 0xFF)) :: nat) = length s mod 256"
  by (simp only: of_char_to_char unat_low_byte unat_size_of mod_mod_trivial)

lemma frame_len_byte:
  "length s < 2 ^ 64 \<Longrightarrow> (of_char (to_char (size_of s)) :: nat) = length s mod 256"
  by (simp only: of_char_to_char unat_size_of)

lemma frame_const_byte: "(of_char (to_char 126) :: nat) = 126" "(of_char (to_char 127) :: nat) = 127"
  by (simp_all add: to_char_def)

lemma rev8: "rev [0 ..< 8] = [7, 6, 5, 4, 3, 2, 1, 0 :: nat]"
  by (simp add: upt_rec)




lemma prefix_bytes:
  assumes "length json < 2 ^ 64"
  shows "map of_char (length_prefix json)
               = (if length json \<le> 125 then [length json]
                  else if length json \<le> 65535 then [126, length json div 2 ^ 8 mod 256, length json mod 256]
                  else 127 # map (\<lambda>i. length json div 2 ^ (i * 8) mod 256) [7, 6, 5, 4, 3, 2, 1, 0])"
proof (cases "length json \<le> 125")
  case True
  then have "length json mod 256 = length json" by simp
  with True show ?thesis
    unfolding length_prefix_def size_of_le[OF assms]
    by (simp only: if_True list.map frame_len_byte[OF assms])
next
  case False
  then show ?thesis
    unfolding length_prefix_def rev8 size_of_le[OF assms]
    by (simp only: if_False if_distrib[of "map of_char"] list.map frame_byte[OF assms]
        frame_low_byte[OF assms] frame_const_byte)
qed


lemma boundary_values:
  "(if (125 :: nat) \<le> 125 then [125]
    else if (125 :: nat) \<le> 65535 then [126, 125 div 2 ^ 8 mod 256, 125 mod 256]
    else 127 # map (\<lambda>i. 125 div 2 ^ (i * 8) mod 256) [7, 6, 5, 4, 3, 2, 1, 0]) = [125 :: nat]"
  "(if (126 :: nat) \<le> 125 then [126]
    else if (126 :: nat) \<le> 65535 then [126, 126 div 2 ^ 8 mod 256, 126 mod 256]
    else 127 # map (\<lambda>i. 126 div 2 ^ (i * 8) mod 256) [7, 6, 5, 4, 3, 2, 1, 0]) = [126, 0, 126 :: nat]"
  "(if (65535 :: nat) \<le> 125 then [65535]
    else if (65535 :: nat) \<le> 65535 then [126, 65535 div 2 ^ 8 mod 256, 65535 mod 256]
    else 127 # map (\<lambda>i. 65535 div 2 ^ (i * 8) mod 256) [7, 6, 5, 4, 3, 2, 1, 0])
     = [126, 255, 255 :: nat]"
  "(if (65536 :: nat) \<le> 125 then [65536]
    else if (65536 :: nat) \<le> 65535 then [126, 65536 div 2 ^ 8 mod 256, 65536 mod 256]
    else 127 # map (\<lambda>i. 65536 div 2 ^ (i * 8) mod 256) [7, 6, 5, 4, 3, 2, 1, 0])
     = [127, 0, 0, 0, 0, 0, 1, 0, 0 :: nat]"
  by simp_all


subsection \<open>The frame envelope\<close>

text \<open>
  Claim C3.  For every payload, the frame \<open>send_message\<close> writes starts with the byte 0x81,
  then carries the length prefix, then the payload unmodified.  The prefix is the one length
  byte for a size up to 125; the byte 126 and the size as 16 bits big-endian for a size from
  126 to 65535; the byte 127 and the size as 64 bits big-endian above 65535.  The sizes 125,
  126, 65535 and 65536 take the 1-byte, 16-bit, 16-bit and 64-bit form.
\<close>

theorem send_message_frame:
  assumes "length json < 2 ^ 64"
  shows "\<exists>pre. send_message True json = Some (char_of (0x81 :: nat) # pre @ json)
           \<and> map of_char pre
               = (if length json \<le> 125 then [length json]
                  else if length json \<le> 65535
                    then [126, length json div 2 ^ 8 mod 256, length json mod 256]
                  else 127 # map (\<lambda>i. length json div 2 ^ (i * 8) mod 256) [7, 6, 5, 4, 3, 2, 1, 0])
           \<and> (length json = 125 \<longrightarrow> map of_char pre = [125 :: nat])
           \<and> (length json = 126 \<longrightarrow> map of_char pre = [126, 0, 126 :: nat])
           \<and> (length json = 65535 \<longrightarrow> map of_char pre = [126, 255, 255 :: nat])
           \<and> (length json = 65536 \<longrightarrow> map of_char pre = [127, 0, 0, 0, 0, 0, 1, 0, 0 :: nat])"
proof -
  let ?n = "length json" and ?pre = "length_prefix json"
  have frame: "send_message True json = Some (char_of (0x81 :: nat) # ?pre @ json)"
    by (simp add: send_message_def build_frame_def length_prefix_def)
  note bytes = prefix_bytes[OF assms]
  have b1: "?n = 125 \<longrightarrow> map of_char ?pre = [125 :: nat]"
  proof
    assume e: "?n = 125"
    show "map of_char ?pre = [125 :: nat]" unfolding bytes e by (rule boundary_values(1))
  qed
  have b2: "?n = 126 \<longrightarrow> map of_char ?pre = [126, 0, 126 :: nat]"
  proof
    assume e: "?n = 126"
    show "map of_char ?pre = [126, 0, 126 :: nat]" unfolding bytes e by (rule boundary_values(2))
  qed
  have b3: "?n = 65535 \<longrightarrow> map of_char ?pre = [126, 255, 255 :: nat]"
  proof
    assume e: "?n = 65535"
    show "map of_char ?pre = [126, 255, 255 :: nat]"
      unfolding bytes e by (rule boundary_values(3))
  qed
  have b4: "?n = 65536 \<longrightarrow> map of_char ?pre = [127, 0, 0, 0, 0, 0, 1, 0, 0 :: nat]"
  proof
    assume e: "?n = 65536"
    show "map of_char ?pre = [127, 0, 0, 0, 0, 0, 1, 0, 0 :: nat]"
      unfolding bytes e by (rule boundary_values(4))
  qed
  show ?thesis
    by (intro exI[of _ ?pre] conjI; fact)
qed


theorem send_message_frame_witness:
  "length (replicate 125 CHR ''a'') < (2 :: nat) ^ 64
   \<and> (\<exists>pre. send_message True (replicate 125 CHR ''a'')
                = Some (char_of (0x81 :: nat) # pre @ replicate 125 CHR ''a'')
            \<and> map of_char pre = [125 :: nat])
   \<and> (\<exists>pre. send_message True (replicate 126 CHR ''a'')
                = Some (char_of (0x81 :: nat) # pre @ replicate 126 CHR ''a'')
            \<and> map of_char pre = [126, 0, 126 :: nat])
   \<and> (\<exists>pre. send_message True (replicate 65535 CHR ''a'')
                = Some (char_of (0x81 :: nat) # pre @ replicate 65535 CHR ''a'')
            \<and> map of_char pre = [126, 255, 255 :: nat])
   \<and> (\<exists>pre. send_message True (replicate 65536 CHR ''a'')
                = Some (char_of (0x81 :: nat) # pre @ replicate 65536 CHR ''a'')
            \<and> map of_char pre = [127, 0, 0, 0, 0, 0, 1, 0, 0 :: nat])"
proof -
  have l: "length (replicate n CHR ''a'') = n" for n by simp
  have l125: "length (replicate 125 CHR ''a'') < (2 :: nat) ^ 64"
    and l126: "length (replicate 126 CHR ''a'') < (2 :: nat) ^ 64"
    and l65535: "length (replicate 65535 CHR ''a'') < (2 :: nat) ^ 64"
    and l65536: "length (replicate 65536 CHR ''a'') < (2 :: nat) ^ 64"
    unfolding l by simp_all
  have w125: "\<exists>pre. send_message True (replicate 125 CHR ''a'')
                = Some (char_of (0x81 :: nat) # pre @ replicate 125 CHR ''a'')
            \<and> map of_char pre = [125 :: nat]"
    using send_message_frame[OF l125]
  proof (elim exE conjE)
    fix pre
    assume a: "send_message True (replicate 125 CHR ''a'')
                 = Some (char_of (0x81 :: nat) # pre @ replicate 125 CHR ''a'')"
      and b: "length (replicate 125 CHR ''a'') = 125 \<longrightarrow> map of_char pre = [125 :: nat]"
    from b have "map of_char pre = [125 :: nat]" unfolding l by (rule mp) (rule refl)
    with a show ?thesis by (intro exI conjI)
  qed
  have w126: "\<exists>pre. send_message True (replicate 126 CHR ''a'')
                = Some (char_of (0x81 :: nat) # pre @ replicate 126 CHR ''a'')
            \<and> map of_char pre = [126, 0, 126 :: nat]"
    using send_message_frame[OF l126]
  proof (elim exE conjE)
    fix pre
    assume a: "send_message True (replicate 126 CHR ''a'')
                 = Some (char_of (0x81 :: nat) # pre @ replicate 126 CHR ''a'')"
      and b: "length (replicate 126 CHR ''a'') = 126 \<longrightarrow> map of_char pre = [126, 0, 126 :: nat]"
    from b have "map of_char pre = [126, 0, 126 :: nat]" unfolding l by (rule mp) (rule refl)
    with a show ?thesis by (intro exI conjI)
  qed
  have w65535: "\<exists>pre. send_message True (replicate 65535 CHR ''a'')
                = Some (char_of (0x81 :: nat) # pre @ replicate 65535 CHR ''a'')
            \<and> map of_char pre = [126, 255, 255 :: nat]"
    using send_message_frame[OF l65535]
  proof (elim exE conjE)
    fix pre
    assume a: "send_message True (replicate 65535 CHR ''a'')
                 = Some (char_of (0x81 :: nat) # pre @ replicate 65535 CHR ''a'')"
      and b: "length (replicate 65535 CHR ''a'') = 65535 \<longrightarrow> map of_char pre = [126, 255, 255 :: nat]"
    from b have "map of_char pre = [126, 255, 255 :: nat]" unfolding l by (rule mp) (rule refl)
    with a show ?thesis by (intro exI conjI)
  qed
  have w65536: "\<exists>pre. send_message True (replicate 65536 CHR ''a'')
                = Some (char_of (0x81 :: nat) # pre @ replicate 65536 CHR ''a'')
            \<and> map of_char pre = [127, 0, 0, 0, 0, 0, 1, 0, 0 :: nat]"
    using send_message_frame[OF l65536]
  proof (elim exE conjE)
    fix pre
    assume a: "send_message True (replicate 65536 CHR ''a'')
                 = Some (char_of (0x81 :: nat) # pre @ replicate 65536 CHR ''a'')"
      and b: "length (replicate 65536 CHR ''a'') = 65536 \<longrightarrow> map of_char pre = [127, 0, 0, 0, 0, 0, 1, 0, 0 :: nat]"
    from b have "map of_char pre = [127, 0, 0, 0, 0, 0, 1, 0, 0 :: nat]" unfolding l by (rule mp) (rule refl)
    with a show ?thesis by (intro exI conjI)
  qed
  from l125 w125 w126 w65535 w65536 show ?thesis by (intro conjI)
qed

lemma digit_not_quote: "n < 10 \<Longrightarrow> char_of (48 + n :: nat) \<noteq> CHR 0x22"
proof
  assume n: "n < 10" and e: "char_of (48 + n) = CHR 0x22"
  have "(of_char (char_of (48 + n)) :: nat) = 48 + n" using n by simp
  moreover have "(of_char (CHR 0x22) :: nat) = 34" by simp
  ultimately show False using e by simp
qed

lemma show_nat_no_quote: "CHR 0x22 \<notin> set (show_nat n)"
proof (induction n rule: show_nat.induct)
  case (1 n)
  show ?case
  proof (cases "n < 10")
    case True
    then show ?thesis
      using digit_not_quote[of n] by (subst show_nat.simps) auto
  next
    case False
    have "n mod 10 < 10" by simp
    then have "char_of (48 + n mod 10) \<noteq> CHR 0x22" by (rule digit_not_quote)
    with False 1 show ?thesis by (subst show_nat.simps) auto
  qed
qed

lemma show_int_no_quote: "CHR 0x22 \<notin> set (show_int i)"
  by (simp add: show_int_def show_nat_no_quote)

lemma show_whole_double_no_quote: "CHR 0x22 \<notin> set (show_whole_double d)"
  by (simp add: show_whole_double_def show_int_no_quote)

lemma str_find_skip:
  assumes "CHR 0x22 \<notin> set s" and "str_find (CHR 0x22 # rest) t = None"
  shows "str_find (CHR 0x22 # rest) (s @ t) = None"
  using assms by (induction s) auto

lemma probe_tail:
  assumes "CHR 0x22 \<notin> set a" and "CHR 0x22 \<notin> set b" and "CHR 0x22 \<notin> set c" and "CHR 0x22 \<notin> set d"
    and "needle = CHR 0x22 # CHR ''t'' # rest"
  shows "str_find needle (a @ '',\"voltage\":'' @ b @ '',\"velocity\":'' @ c
                            @ '',\"position\":'' @ d @ ''}'') = None"
proof -
  have 4: "str_find needle (d @ ''}'') = None"
    unfolding assms(5) by (rule str_find_skip[OF assms(4)]) simp
  have 3: "str_find needle (c @ '',\"position\":'' @ d @ ''}'') = None"
    unfolding assms(5) by (rule str_find_skip[OF assms(3)]) (use 4 in \<open>simp add: assms(5)\<close>)
  have 2: "str_find needle (b @ '',\"velocity\":'' @ c @ '',\"position\":'' @ d @ ''}'') = None"
    unfolding assms(5) by (rule str_find_skip[OF assms(2)]) (use 3 in \<open>simp add: assms(5)\<close>)
  show ?thesis
    unfolding assms(5) by (rule str_find_skip[OF assms(1)]) (use 2 in \<open>simp add: assms(5)\<close>)
qed

lemma motor_text_no_probe:
  assumes "CHR 0x22 \<notin> set (fmt vel)" and "CHR 0x22 \<notin> set (fmt pos)"
  shows "str_find ''\"type\":\"touch\"'' (motor_telemetry_text fmt port volt vel pos) = None"
    and "str_find ''\"type\":\"controller\"'' (motor_telemetry_text fmt port volt vel pos) = None"
    and "str_find ''\"type\":\"mode\"'' (motor_telemetry_text fmt port volt vel pos) = None"
    and "str_find ''\"type\":\"select_auto\"'' (motor_telemetry_text fmt port volt vel pos) = None"
  using probe_tail[OF show_int_no_quote[of "uint port"] show_int_no_quote[of volt] assms, of _ "''ype\":\"touch\"''"]
        probe_tail[OF show_int_no_quote[of "uint port"] show_int_no_quote[of volt] assms, of _ "''ype\":\"controller\"''"]
        probe_tail[OF show_int_no_quote[of "uint port"] show_int_no_quote[of volt] assms, of _ "''ype\":\"mode\"''"]
        probe_tail[OF show_int_no_quote[of "uint port"] show_int_no_quote[of volt] assms, of _ "''ype\":\"select_auto\"''"]
  by (simp_all add: motor_telemetry_text_def)

subsection \<open>Motor telemetry and the inbound decoder\<close>

text \<open>
  Claim C8, as amended.  The text \<open>send_motor_telemetry\<close> produces for any port, voltage,
  velocity and position matches none of the four kinds \<open>parse_message\<close> probes for (touch,
  controller, mode, select_auto): \<open>parse_message\<close> invokes no callback on it, raises nothing
  and decodes no field.  The number texts of the two doubles contain no double quote.
\<close>

theorem motor_telemetry_not_decoded:
  assumes "CHR 0x22 \<notin> set (fmt vel)" and "CHR 0x22 \<notin> set (fmt pos)"
  shows "parse_message cb (motor_telemetry_text fmt port volt vel pos) = Inr None"
  by (simp add: parse_message_def motor_text_no_probe[OF assms])

theorem motor_telemetry_not_decoded_witness:
  "CHR 0x22 \<notin> set (show_whole_double (-600)) \<and> CHR 0x22 \<notin> set (show_whole_double 0)
   \<and> parse_message \<lparr> touch_callback = True, controller_callback = True, mode_callback = True,
                      auto_select_callback = True \<rparr>
        (motor_telemetry_text show_whole_double 21 (-127) (-600) 0) = Inr None"
  using motor_telemetry_not_decoded[where fmt = show_whole_double and vel = "-600" and pos = 0]
    show_whole_double_no_quote
  by simp

lemma digit_chars:
  "char_of (48 :: nat) = CHR ''0''" "char_of (49 :: nat) = CHR ''1''"
  "char_of (50 :: nat) = CHR ''2''" "char_of (51 :: nat) = CHR ''3''"
  "char_of (52 :: nat) = CHR ''4''" "char_of (53 :: nat) = CHR ''5''"
  "char_of (54 :: nat) = CHR ''6''" "char_of (55 :: nat) = CHR ''7''"
  "char_of (56 :: nat) = CHR ''8''" "char_of (57 :: nat) = CHR ''9''"
  by (simp_all add: char_of_def bit_0)

text \<open>
  Claim C8 as stated fails: the record of port 1, voltage 127, velocity 200, position 360 is
  the text below, and \<open>parse_message\<close>, with all four callbacks registered, dispatches
  nothing for it, so no port, voltage, velocity or position is recovered.
\<close>

theorem motor_telemetry_roundtrip_counterexample:
  "motor_telemetry_text show_whole_double 1 127 200 360
     = ''{\"type\":\"motor\",\"port\":1,\"voltage\":127,\"velocity\":200,\"position\":360}''
   \<and> parse_message \<lparr> touch_callback = True, controller_callback = True, mode_callback = True,
                      auto_select_callback = True \<rparr>
        ''{\"type\":\"motor\",\"port\":1,\"voltage\":127,\"velocity\":200,\"position\":360}''
     = Inr None"
  by (simp add: motor_telemetry_text_def show_whole_double_def show_int_def show_nat.simps
      parse_message_def digit_chars)

section \<open>Properties of the mode orchestrator\<close>

lemma orch_inv_init: "orch_inv (Orchestrator_init A)"
  by (simp add: orch_inv_def Orchestrator_init_def)

lemma on_mode_change_threads:
  "started (on_mode_change s m) = started s" "mode_thread (on_mode_change s m) = mode_thread s"
  "last_mode (on_mode_change s m) = last_mode s"
  by (simp_all add: on_mode_change_def)

lemma orch_inv_on_mode_change: "orch_inv s \<Longrightarrow> orch_inv (on_mode_change s m)"
  by (simp add: orch_inv_def on_mode_change_threads)

lemma orch_inv_iteration:
  "orch_inv s \<Longrightarrow> main_loop_iteration A s = Inr s' \<Longrightarrow> orch_inv s'"
  by (auto simp: orch_inv_def main_loop_iteration_def replace_mode_thread_def Let_def
      split: if_splits RobotMode.splits sum.splits)

lemma orch_inv_run: "orch_inv s \<Longrightarrow> run A evs s = Inr s' \<Longrightarrow> orch_inv s'"
proof (induction A evs s rule: run.induct)
  case (1 A s)
  then show ?case by simp
next
  case (2 A m evs s)
  then show ?case by (simp add: orch_inv_on_mode_change)
next
  case (3 A evs s)
  then show ?case by (auto split: sum.splits dest: orch_inv_iteration)
qed

lemma run_append:
  "run A (evs @ evs') s
     = (case run A evs s of Inl e \<Rightarrow> Inl e | Inr s' \<Rightarrow> run A evs' s')"
  by (induction A evs s rule: run.induct) (auto split: sum.splits)

lemma scenario_writes:
  "current_mode (on_mode_change (on_mode_change s ''autonomous'') ''disabled'') = DISABLED"
  "robot_mode (hal (on_mode_change (on_mode_change s ''autonomous'') ''disabled'')) = DISABLED"
  by (simp_all add: on_mode_change_def set_robot_mode_def)

lemma iteration_disabled:
  assumes "current_mode s = DISABLED"
  shows "\<exists>s'. main_loop_iteration A s = Inr s' \<and> started s' = started s
           \<and> mode_thread s' = mode_thread s \<and> robot_mode (hal s') = robot_mode (hal s)
           \<and> last_mode s' = DISABLED"
  using assms by (auto simp: main_loop_iteration_def Let_def HAL_update_def)

subsection \<open>Two mode writes before the next mode check\<close>

text \<open>
  Claim C9.  \<open>set_robot_mode\<close> overwrites unconditionally, so the last write wins.  From any
  state the orchestrator reaches without terminating, when the mode is written AUTONOMOUS and
  then DISABLED before the main loop checks the mode again, the next loop iteration completes,
  the store's mode is DISABLED, no thread is started, and at most one mode thread that was
  started and not joined exists.  This holds whatever the arithmetic of \<open>double\<close> is.
\<close>

theorem mode_last_write_wins:
  assumes "run A evs (Orchestrator_init A) = Inr s"
  shows "get_robot_mode (set_robot_mode (set_robot_mode h m1) m2) = m2
       \<and> (\<exists>s'. run A (evs @ [ModeWrite ''autonomous'', ModeWrite ''disabled'', Tick])
                  (Orchestrator_init A) = Inr s'
              \<and> get_robot_mode (hal s') = DISABLED
              \<and> started s' = started s
              \<and> length (started s') \<le> 1)"
proof -
  let ?w = "on_mode_change (on_mode_change s ''autonomous'') ''disabled''"
  have inv: "orch_inv s" using orch_inv_run[OF orch_inv_init assms] .
  then have le: "length (started s) \<le> 1" by (simp add: orch_inv_def)
  obtain s' where it: "main_loop_iteration A ?w = Inr s'" and st: "started s' = started ?w"
    and rm: "robot_mode (hal s') = robot_mode (hal ?w)"
    using iteration_disabled[OF scenario_writes(1)] by blast
  have "run A (evs @ [ModeWrite ''autonomous'', ModeWrite ''disabled'', Tick])
          (Orchestrator_init A) = Inr s'"
    by (simp add: run_append assms it)
  moreover have "get_robot_mode (hal s') = DISABLED"
    using rm scenario_writes(2) by (simp add: get_robot_mode_def)
  moreover have "started s' = started s" using st by (simp add: on_mode_change_threads)
  moreover have "get_robot_mode (set_robot_mode (set_robot_mode h m1) m2) = m2"
    by (simp add: get_robot_mode_def set_robot_mode_def)
  ultimately show ?thesis using le by simp
qed

theorem mode_last_write_wins_witness:
  "\<exists>s. run exact_arith [ModeWrite ''opcontrol'', Tick] (Orchestrator_init exact_arith) = Inr s
     \<and> started s = [opcontrol]
     \<and> (\<exists>s'. run exact_arith ([ModeWrite ''opcontrol'', Tick]
                   @ [ModeWrite ''autonomous'', ModeWrite ''disabled'', Tick])
                  (Orchestrator_init exact_arith) = Inr s'
              \<and> get_robot_mode (hal s') = DISABLED
              \<and> started s' = [opcontrol])"
proof -
  obtain s where
    r: "run exact_arith [ModeWrite ''opcontrol'', Tick] (Orchestrator_init exact_arith) = Inr s"
    and st: "started s = [opcontrol]"
    by (simp add: Orchestrator_init_def on_mode_change_def main_loop_iteration_def
        replace_mode_thread_def Let_def)
  from mode_last_write_wins[OF r, where h = "HAL_init exact_arith" and ?m1.0 = AUTONOMOUS
      and ?m2.0 = DISABLED]
  obtain s' where r': "run exact_arith ([ModeWrite ''opcontrol'', Tick]
                   @ [ModeWrite ''autonomous'', ModeWrite ''disabled'', Tick])
                  (Orchestrator_init exact_arith) = Inr s'"
    and m': "get_robot_mode (hal s') = DISABLED" and st': "started s' = started s"
    by blast
  from st' st have "started s' = [opcontrol]" by simp
  with r st r' m' show ?thesis by blast
qed

end
